theory Spec2Isabelle
  imports Complex_Main
begin

section \<open>Python values, exceptions and call binding\<close>

text \<open>
  Floating-point numbers of the source are modelled as \<^typ>\<open>real\<close>; numpy arrays as lists.
  numpy's \<open>nan\<close> and \<open>inf\<close> (results of a division by zero or of a square root of a negative
  number inside an array operation, which warn but do not raise) have no counterpart: the
  model computes HOL's total real functions there. Every place where Python itself raises
  is a branch of the model returning \<open>Inl\<close> of the exception.
\<close>

datatype py_error =
    TypeError | NameError | UnboundLocalError | AttributeError | NotImplementedError
  | ZeroDivisionError | IndexError | ValueError

type_synonym 'a result = "py_error + 'a"

definition rbind :: "'a result \<Rightarrow> ('a \<Rightarrow> 'b result) \<Rightarrow> 'b result" where
  "rbind m f = (case m of Inl e \<Rightarrow> Inl e | Inr v \<Rightarrow> f v)"

text \<open>An optional argument whose default is \<open>None\<close>, used in arithmetic: \<open>None\<close> raises.\<close>

definition py_num :: "real option \<Rightarrow> real result" where
  "py_num v = (case v of None \<Rightarrow> Inl TypeError | Some r \<Rightarrow> Inr r)"

text \<open>
  Python's binding of the arguments of a call to the parameters of a \<open>def\<close> (the
  parameter \<open>self\<close> left out): \<open>required\<close> are the parameters without a default,
  \<open>optional\<close> those with one, \<open>npos\<close> the number of positional arguments and \<open>kws\<close>
  the keywords of the call. The call raises \<open>TypeError\<close> before the body runs when there
  are too many positional arguments, a keyword that names no parameter or one already
  given by position, or a required parameter left without a value.
\<close>

definition py_bind_ok :: "string list \<Rightarrow> string list \<Rightarrow> nat \<Rightarrow> string list \<Rightarrow> bool" where
  "py_bind_ok required optional npos kws =
     (npos \<le> length (required @ optional) \<and>
      distinct kws \<and>
      list_all (\<lambda>k. k \<in> set (drop npos (required @ optional))) kws \<and>
      list_all (\<lambda>p. p \<in> set kws) (drop npos required))"

definition py_call :: "string list \<Rightarrow> string list \<Rightarrow> nat \<Rightarrow> string list \<Rightarrow> 'a result \<Rightarrow> 'a result" where
  "py_call required optional npos kws body =
     (if py_bind_ok required optional npos kws then body else Inl TypeError)"

text \<open>Looking a global name up in a module namespace.\<close>

definition py_lookup :: "string list \<Rightarrow> string \<Rightarrow> unit result" where
  "py_lookup namespace name = (if name \<in> set namespace then Inr () else Inl NameError)"

subsection \<open>numpy helpers\<close>

definition np_mean :: "real list \<Rightarrow> real" where
  "np_mean xs = sum_list xs / real (length xs)"

text \<open>\<open>np.average(a, weights=w)\<close> raises \<open>ZeroDivisionError\<close> when the weights sum to zero.\<close>

definition np_average :: "real list \<Rightarrow> real list \<Rightarrow> real result" where
  "np_average a w =
     (if sum_list w = 0 then Inl ZeroDivisionError
      else Inr (sum_list (map2 (*) a w) / sum_list w))"

text \<open>A Python slice \<open>xs[i:j]\<close> with \<open>0 \<le> i\<close>, \<open>0 \<le> j\<close>: the bounds are clamped to the length.\<close>

definition py_slice :: "'a list \<Rightarrow> nat \<Rightarrow> nat \<Rightarrow> 'a list" where
  "py_slice xs i j = take (j - i) (drop i xs)"

definition np_linspace :: "real \<Rightarrow> real \<Rightarrow> nat \<Rightarrow> real list" where
  "np_linspace a b n = map (\<lambda>i. a + (b - a) * real i / real (n - 1)) [0..<n]"

definition np_arctan2 :: "real \<Rightarrow> real \<Rightarrow> real" where
  "np_arctan2 v u =
     (if 0 < u then arctan (v / u)
      else if u < 0 then (if 0 \<le> v then arctan (v / u) + pi else arctan (v / u) - pi)
      else if 0 < v then pi / 2 else if v < 0 then - (pi / 2) else 0)"

subsection \<open>Physical constants (\<open>scipy.constants\<close>, CODATA 2018)\<close>

definition ct_c :: real where "ct_c = 299792458"
definition ct_e :: real where "ct_e = 1602176634 / 10 ^ 28"
definition ct_m_e :: real where "ct_m_e = 91093837015 / 10 ^ 41"
definition ct_epsilon_0 :: real where "ct_epsilon_0 = 88541878128 / 10 ^ 22"

section \<open>Data carriers\<close>

text \<open>
  Modelled from the spec: the class \<open>ParticleBunch\<close> of \<open>wake_t.driver_witness\<close>, which the
  source imports. It holds the charge and six phase-space arrays plus the propagation
  distance; \<open>get_6D_matrix\<close> stacks the arrays in the order \<open>[x, px, y, py, xi, pz]\<close>,
  \<open>set_phase_space\<close> overwrites the six arrays and \<open>increase_prop_distance\<close> adds to
  \<open>prop_distance\<close>.
\<close>

record particle_bunch =
  pb_q :: "real list"
  pb_x :: "real list"
  pb_y :: "real list"
  pb_xi :: "real list"
  pb_px :: "real list"
  pb_py :: "real list"
  pb_pz :: "real list"
  prop_distance :: real

definition ParticleBunch ::
  "real list \<Rightarrow> real list \<Rightarrow> real list \<Rightarrow> real list \<Rightarrow> real list \<Rightarrow> real list \<Rightarrow> real list \<Rightarrow> real
     \<Rightarrow> particle_bunch" where
  "ParticleBunch q x y xi px py pz pd =
     \<lparr>pb_q = q, pb_x = x, pb_y = y, pb_xi = xi, pb_px = px, pb_py = py, pb_pz = pz,
      prop_distance = pd\<rparr>"

definition get_6D_matrix :: "particle_bunch \<Rightarrow> real list list" where
  "get_6D_matrix b = [pb_x b, pb_px b, pb_y b, pb_py b, pb_xi b, pb_pz b]"

definition set_phase_space ::
  "particle_bunch \<Rightarrow> real list \<Rightarrow> real list \<Rightarrow> real list \<Rightarrow> real list \<Rightarrow> real list \<Rightarrow> real list
     \<Rightarrow> particle_bunch" where
  "set_phase_space b x y xi px py pz =
     b\<lparr>pb_x := x, pb_y := y, pb_xi := xi, pb_px := px, pb_py := py, pb_pz := pz\<rparr>"

definition increase_prop_distance :: "particle_bunch \<Rightarrow> real \<Rightarrow> particle_bunch" where
  "increase_prop_distance b len = b\<lparr>prop_distance := prop_distance b + len\<rparr>"

text \<open>
  Modelled from the spec: the class \<open>LaserPulse\<close> of \<open>wake_t.driver_witness\<close>. It holds
  \<open>xi_c\<close>, \<open>a_0\<close>, \<open>w_0\<close> and a propagation distance. Its method \<open>get_group_velocity(n_p)\<close>
  returns the group velocity as a fraction of \<open>c\<close> and \<open>get_a0_profile(r, z, dist_z_foc)\<close> the
  local amplitude on the radial grid \<open>r\<close>; their formulas are not part of the source and are
  carried as fields.
\<close>

record laser_pulse =
  l_xi_c :: real
  l_a_0 :: real
  l_w_0 :: real
  l_prop_distance :: real
  get_group_velocity :: "real \<Rightarrow> real"
  get_a0_profile :: "real list \<Rightarrow> real \<Rightarrow> real \<Rightarrow> real list"

definition laser_increase_prop_distance :: "laser_pulse \<Rightarrow> real \<Rightarrow> laser_pulse" where
  "laser_increase_prop_distance l len = l\<lparr>l_prop_distance := l_prop_distance l + len\<rparr>"

section \<open>Wakefield models (\<open>wakefields.py\<close>)\<close>

text \<open>
  The names the module \<open>wake_t.wakefields\<close> defines, which \<open>beamline_elements.py\<close> takes over
  with \<open>from wake_t.wakefields import *\<close>, and the other global names \<open>beamline_elements.py\<close>
  imports or defines.
\<close>

definition wakefields_names :: "string list" where
  "wakefields_names =
     [''np'', ''ct'', ''RegularGridInterpolator'', ''plasma_skin_depth'',
      ''plasma_cold_non_relativisct_wave_breaking_field'', ''plt'', ''vpic_installed'',
      ''Wakefield'', ''CustomBlowoutWakefield'', ''WakefieldFromPICSimulation'',
      ''NonLinearColdFluidWakefield'', ''PlasmaRampBlowoutField'', ''PlasmaLensField'',
      ''PlasmaLensFieldRelativistic'']"

definition beamline_elements_names :: "string list" where
  "beamline_elements_names =
     [''time'', ''Pool'', ''cpu_count'', ''partial'', ''np'', ''ct'', ''ge'', ''runge_kutta_4'']
     @ wakefields_names @ [''ParticleBunch'', ''PlasmaStage'', ''PlasmaRamp'']"

subsection \<open>\<open>CustomBlowoutWakefield\<close>\<close>

record custom_blowout_wakefield =
  cb_n_p :: real
  cb_xi_c :: real
  cb_field_off :: real
  cb_driver :: laser_pulse
  cb_g_x :: "real option"
  cb_E_z_0 :: "real option"
  cb_E_z_p :: "real option"
  cb_l_c :: real
  cb_b_w :: real

text \<open>\<open>__init__\<close> followed by \<open>_calculate_base_quantities\<close>: the three field values are stored as given.\<close>

definition CustomBlowoutWakefield_init ::
  "real \<Rightarrow> laser_pulse \<Rightarrow> real \<Rightarrow> real option \<Rightarrow> real option \<Rightarrow> real option \<Rightarrow> real
     \<Rightarrow> custom_blowout_wakefield" where
  "CustomBlowoutWakefield_init n_p driver beam_center lon_field lon_field_slope foc_strength
       field_offset =
     \<lparr>cb_n_p = n_p, cb_xi_c = beam_center, cb_field_off = field_offset, cb_driver = driver,
      cb_g_x = foc_strength, cb_E_z_0 = lon_field, cb_E_z_p = lon_field_slope,
      cb_l_c = l_xi_c driver, cb_b_w = get_group_velocity driver n_p\<rparr>"

text \<open>The four evaluators at one phase-space point.\<close>

definition CustomBlowoutWakefield_Wx ::
  "custom_blowout_wakefield \<Rightarrow> real \<Rightarrow> real \<Rightarrow> real \<Rightarrow> real \<Rightarrow> real \<Rightarrow> real \<Rightarrow> real \<Rightarrow> real \<Rightarrow> real
     \<Rightarrow> real result" where
  "CustomBlowoutWakefield_Wx fld x y xi px py pz q gamma t =
     rbind (py_num (cb_g_x fld)) (\<lambda>g. Inr (ct_c * g * x))"

definition CustomBlowoutWakefield_Wy ::
  "custom_blowout_wakefield \<Rightarrow> real \<Rightarrow> real \<Rightarrow> real \<Rightarrow> real \<Rightarrow> real \<Rightarrow> real \<Rightarrow> real \<Rightarrow> real \<Rightarrow> real
     \<Rightarrow> real result" where
  "CustomBlowoutWakefield_Wy fld x y xi px py pz q gamma t =
     rbind (py_num (cb_g_x fld)) (\<lambda>g. Inr (ct_c * g * y))"

definition CustomBlowoutWakefield_Wz ::
  "custom_blowout_wakefield \<Rightarrow> real \<Rightarrow> real \<Rightarrow> real \<Rightarrow> real \<Rightarrow> real \<Rightarrow> real \<Rightarrow> real \<Rightarrow> real \<Rightarrow> real
     \<Rightarrow> real result" where
  "CustomBlowoutWakefield_Wz fld x y xi px py pz q gamma t =
     rbind (py_num (cb_E_z_p fld)) (\<lambda>E_z_p.
     rbind (py_num (cb_E_z_0 fld)) (\<lambda>E_z_0.
       Inr (E_z_0 + E_z_p * (xi - cb_field_off fld - cb_xi_c fld + (1 - cb_b_w fld) * ct_c * t))))"

text \<open>\<open>Kx\<close> on an array \<open>x\<close>: \<open>self.g_x*np.ones_like(x)\<close>.\<close>

definition CustomBlowoutWakefield_Kx :: "custom_blowout_wakefield \<Rightarrow> real list \<Rightarrow> real list result" where
  "CustomBlowoutWakefield_Kx fld x = rbind (py_num (cb_g_x fld)) (\<lambda>g. Inr (map (\<lambda>_. g * 1) x))"

subsection \<open>\<open>PlasmaRampBlowoutField\<close>\<close>

text \<open>
  Arguments of a call, as far as their dynamic type matters: the ramp passes numbers and
  strings where the constructor declares a density function.
\<close>

datatype pyval = Num real | Arr "real list" | Str string | Fun "real \<Rightarrow> real" | PyNone

record plasma_ramp_blowout_field =
  density_function :: pyval

text \<open>\<open>def __init__(self, density_function)\<close>: one required parameter, stored as given.\<close>

definition PlasmaRampBlowoutField_init ::
  "pyval list \<Rightarrow> (string \<times> pyval) list \<Rightarrow> plasma_ramp_blowout_field result" where
  "PlasmaRampBlowoutField_init pos kws =
     py_call [''density_function''] [] (length pos) (map fst kws)
       (Inr \<lparr>density_function = hd (pos @ map snd kws)\<rparr>)"

text \<open>Calling the stored object on an array: anything but a function raises.\<close>

definition py_apply :: "pyval \<Rightarrow> real list \<Rightarrow> real list result" where
  "py_apply f zs = (case f of Fun g \<Rightarrow> Inr (map g zs) | _ \<Rightarrow> Inl TypeError)"

text \<open>
  \<open>calculate_focusing(xi, t)\<close>; the arrays \<open>xi\<close> and \<open>t\<close> are given already broadcast to
  one length.
\<close>

definition calculate_focusing ::
  "plasma_ramp_blowout_field \<Rightarrow> real list \<Rightarrow> real list \<Rightarrow> real list result" where
  "calculate_focusing fld xi t =
     rbind (py_apply (density_function fld) (map2 (\<lambda>t xi. t * ct_c + xi) t xi)) (\<lambda>n_p.
       Inr (map (\<lambda>n. let w_p = sqrt (n * ct_e\<^sup>2 / (ct_m_e * ct_epsilon_0))
                      in (ct_m_e / (2 * ct_e * ct_c)) * w_p\<^sup>2) n_p))"

definition PlasmaRampBlowoutField_Kx ::
  "plasma_ramp_blowout_field \<Rightarrow> real list \<Rightarrow> real \<Rightarrow> real list result" where
  "PlasmaRampBlowoutField_Kx fld xi t =
     rbind (calculate_focusing fld xi (map (\<lambda>_. t) xi)) (\<lambda>kx. Inr (map (\<lambda>k. 1 * k) kx))"

subsection \<open>\<open>WakefieldFromPICSimulation\<close>\<close>

text \<open>
  The fields are read by the external library VisualPIC and interpolated by scipy; both are
  outside the source. An interpolator is carried as the function from a coordinate point to
  a value that \<open>RegularGridInterpolator\<close> gives.
\<close>

record pic_fields =
  pf_geom :: string
  pf_E_z :: "real list \<Rightarrow> real"
  pf_W_x :: "real list \<Rightarrow> real"
  pf_K_x :: "real list \<Rightarrow> real"

record pic_wakefield =
  pic_code :: "string option"
  pic_path :: "string option"
  pic_n_p :: real
  pic_b_w :: real
  pic_filter_fields :: bool
  pic_reverse_tracking :: bool
  pic_current_ts :: "int option"
  pic_timesteps :: "int list"
  pic_timesteps_in_sec :: "real list"
  pic_fields :: "pic_fields option"

text \<open>
  What VisualPIC's \<open>DataContainer\<close> gives for a simulation code, folder, density and time
  step: the three interpolated fields, the time steps of the simulation and their times in
  seconds, or a failure. \<open>None\<close> stands for VisualPIC not being installed, which leaves the
  name \<open>DataContainer\<close> undefined.
\<close>

type_synonym data_container =
  "(string option \<Rightarrow> string option \<Rightarrow> real \<Rightarrow> int option
      \<Rightarrow> (pic_fields \<times> int list \<times> real list) result) option"

definition first_index :: "'a list \<Rightarrow> 'a \<Rightarrow> nat result" where
  "first_index xs v =
     (case filter (\<lambda>i. xs ! i = v) [0..<length xs] of [] \<Rightarrow> Inl IndexError | i # _ \<Rightarrow> Inr i)"

text \<open>
  \<open>create_fields\<close>: the name \<open>ndimage\<close> is imported nowhere in \<open>wakefields.py\<close>, so filtering
  raises \<open>NameError\<close>.
\<close>

definition create_fields :: "data_container \<Rightarrow> pic_wakefield \<Rightarrow> pic_wakefield result" where
  "create_fields dc w =
     (case dc of
        None \<Rightarrow> Inl NameError
      | Some rd \<Rightarrow>
          rbind (rd (pic_code w) (pic_path w) (pic_n_p w) (pic_current_ts w)) (\<lambda>(f, tss, secs).
            if pic_filter_fields w then Inl NameError
            else if pic_timesteps w \<noteq> [] then Inr (w\<lparr>pic_fields := Some f\<rparr>)
            else if \<not> pic_reverse_tracking w
              then Inr (w\<lparr>pic_fields := Some f, pic_timesteps := tss, pic_timesteps_in_sec := secs\<rparr>)
            else rbind (case pic_current_ts w of None \<Rightarrow> Inl IndexError
                        | Some ts \<Rightarrow> first_index tss ts) (\<lambda>i.
              Inr (w\<lparr>pic_fields := Some f, pic_timesteps := take (i + 1) tss,
                     pic_timesteps_in_sec := rev (take (i + 1) secs)\<rparr>))))"

definition WakefieldFromPICSimulation_init ::
  "data_container \<Rightarrow> string option \<Rightarrow> string option \<Rightarrow> laser_pulse \<Rightarrow> int option \<Rightarrow> real
     \<Rightarrow> bool \<Rightarrow> real \<Rightarrow> bool
     \<Rightarrow> pic_wakefield result" where
  "WakefieldFromPICSimulation_init dc simulation_code simulation_path driver timestep n_p
       filter_fields sigma_filter reverse_tracking =
     create_fields dc
       \<lparr>pic_code = simulation_code, pic_path = simulation_path, pic_n_p = n_p,
        pic_b_w = get_group_velocity driver n_p, pic_filter_fields = filter_fields,
        pic_reverse_tracking = reverse_tracking, pic_current_ts = timestep,
        pic_timesteps = [], pic_timesteps_in_sec = [], pic_fields = None\<rparr>"

definition check_if_update_fields :: "data_container \<Rightarrow> pic_wakefield \<Rightarrow> real \<Rightarrow> pic_wakefield result" where
  "check_if_update_fields dc w time =
     (let possible_ts = filter (\<lambda>i. pic_timesteps_in_sec w ! i < time)
                          [0..<length (pic_timesteps_in_sec w)]
      in if length possible_ts > 1 then
           rbind (case pic_current_ts w of None \<Rightarrow> Inl IndexError
                  | Some ts \<Rightarrow> first_index (pic_timesteps w) ts) (\<lambda>current_ts_index.
             let requested_ts_index =
                   (if \<not> pic_reverse_tracking w then last possible_ts else hd possible_ts)
             in if (if \<not> pic_reverse_tracking w then current_ts_index < requested_ts_index
                    else current_ts_index > requested_ts_index)
                then if requested_ts_index < length (pic_timesteps w)
                     then create_fields dc
                            (w\<lparr>pic_current_ts := Some (pic_timesteps w ! requested_ts_index)\<rparr>)
                     else Inl IndexError
                else Inr w)
         else Inr w)"

text \<open>\<open>Kx\<close>: the point matrix \<open>R\<close> by geometry, then the interpolator on each point.\<close>

definition WakefieldFromPICSimulation_Kx ::
  "pic_wakefield \<Rightarrow> real list \<Rightarrow> real list \<Rightarrow> real list \<Rightarrow> real \<Rightarrow> real list result" where
  "WakefieldFromPICSimulation_Kx w x y xi t =
     (case pic_fields w of
        None \<Rightarrow> Inl AttributeError
      | Some f \<Rightarrow>
          if pf_geom f = ''3D'' then
            Inr (map (\<lambda>(x, y, xi). pf_K_x f [x, y, xi + (1 - pic_b_w w) * ct_c * t])
                   (zip x (zip y xi)))
          else if pf_geom f = ''thetaMode'' then
            Inr (map (\<lambda>(x, y, xi). pf_K_x f [sqrt (x\<^sup>2 + y\<^sup>2), xi + (1 - pic_b_w w) * ct_c * t])
                   (zip x (zip y xi)))
          else Inl UnboundLocalError)"

subsection \<open>The field models the beamline elements construct\<close>

datatype wakefield =
    WF_CustomBlowout custom_blowout_wakefield
  | WF_FromPIC pic_wakefield
  | WF_RampBlowout plasma_ramp_blowout_field

definition as_array :: "pyval \<Rightarrow> real list" where
  "as_array v = (case v of Arr xs \<Rightarrow> xs | Num r \<Rightarrow> [r] | _ \<Rightarrow> [])"

definition as_number :: "pyval \<Rightarrow> real" where
  "as_number v = (case v of Num r \<Rightarrow> r | Arr xs \<Rightarrow> hd xs | _ \<Rightarrow> 0)"

text \<open>
  A call \<open>WF.Kx(...)\<close> with positional arguments only. Every class declares
  \<open>def Kx(self, x, y, xi, px, py, pz, q, gamma, t)\<close>: nine arguments bind, any other number
  raises \<open>TypeError\<close> before the body runs.
\<close>

fun Wakefield_Kx :: "wakefield \<Rightarrow> pyval list \<Rightarrow> real list result" where
  "Wakefield_Kx WF [x, y, xi, px, py, pz, q, gamma, t] =
     (case WF of
        WF_CustomBlowout w \<Rightarrow> CustomBlowoutWakefield_Kx w (as_array x)
      | WF_FromPIC w \<Rightarrow>
          WakefieldFromPICSimulation_Kx w (as_array x) (as_array y) (as_array xi) (as_number t)
      | WF_RampBlowout w \<Rightarrow> PlasmaRampBlowoutField_Kx w (as_array xi) (as_number t))"
| "Wakefield_Kx WF args = Inl TypeError"

subsection \<open>\<open>NonLinearColdFluidWakefield\<close>\<close>

text \<open>
  What the class takes from numpy and from the external library aptools: the plasma skin
  depth, the cold non-relativistic wave-breaking field, \<open>np.histogram2d(xi, r, bins, range,
  weights)\<close>, which raises on arguments it does not accept, and \<open>np.gradient(a, h, axis,
  edge_order=2)\<close>.
\<close>

record numerics =
  plasma_skin_depth :: "real \<Rightarrow> real"
  wave_breaking_field :: "real \<Rightarrow> real"
  histogram2d ::
    "real list \<Rightarrow> real list \<Rightarrow> nat \<Rightarrow> nat \<Rightarrow> real \<times> real \<Rightarrow> real \<times> real \<Rightarrow> real list
       \<Rightarrow> real list list result"
  gradient :: "real list list \<Rightarrow> real \<Rightarrow> nat \<Rightarrow> real list list"

text \<open>The arguments a \<open>RegularGridInterpolator\<close> is built from: two axes and the values.\<close>

record grid_interpolator =
  gi_axis0 :: "real list"
  gi_axis1 :: "real list"
  gi_values :: "real list list"

record cold_fluid_wakefield =
  cf_density_function :: "real \<Rightarrow> real"
  cf_driver :: laser_pulse
  cf_driver_evolution :: bool
  cf_driver_z_foc :: real
  cf_r_max :: real
  cf_xi_min :: real
  cf_xi_max :: real
  cf_n_r :: nat
  cf_n_xi :: nat
  cf_current_t :: real
  cf_current_n_p :: "real option"
  cf_E_z :: "grid_interpolator option"
  cf_W_x :: "grid_interpolator option"
  cf_K_x :: "grid_interpolator option"

definition NonLinearColdFluidWakefield_init ::
  "(real \<Rightarrow> real) \<Rightarrow> laser_pulse \<Rightarrow> bool \<Rightarrow> real \<Rightarrow> real \<Rightarrow> real \<Rightarrow> real \<Rightarrow> nat \<Rightarrow> nat
     \<Rightarrow> cold_fluid_wakefield" where
  "NonLinearColdFluidWakefield_init dens driver driver_evolution driver_z_foc r_max xi_min xi_max
       n_r n_xi =
     \<lparr>cf_density_function = dens, cf_driver = driver, cf_driver_evolution = driver_evolution,
      cf_driver_z_foc = driver_z_foc, cf_r_max = r_max, cf_xi_min = xi_min, cf_xi_max = xi_max,
      cf_n_r = n_r, cf_n_xi = n_xi, cf_current_t = - 1, cf_current_n_p = None,
      cf_E_z = None, cf_W_x = None, cf_K_x = None\<rparr>"

definition vadd :: "real list \<Rightarrow> real list \<Rightarrow> real list" where
  "vadd a b = map2 (+) a b"

definition vscale :: "real \<Rightarrow> real list \<Rightarrow> real list" where
  "vscale c a = map ((*) c) a"

text \<open>
  \<open>__wakefield_ode_system\<close>: the two rows of the returned array. The argument \<open>n_beam\<close> does
  not occur on the right-hand side.
\<close>

definition wakefield_ode_system ::
  "real list \<Rightarrow> real list \<Rightarrow> real list \<Rightarrow> real \<Rightarrow> real list \<Rightarrow> real list \<Rightarrow> real list \<times> real list" where
  "wakefield_ode_system u_1 u_2 r z laser_a0 n_beam =
     (u_2, map2 (\<lambda>a u. (1 + a\<^sup>2) / (2 * (1 + u)\<^sup>2) - 1 / 2) laser_a0 u_1)"

definition pscale :: "real \<Rightarrow> real list \<times> real list \<Rightarrow> real list \<times> real list" where
  "pscale c p = (vscale c (fst p), vscale c (snd p))"

text \<open>
  One pass of the loop over \<open>i\<close>, lines 299 to 318. With \<open>n\<close> rows, the index \<open>-1-i\<close> is
  \<open>n - 1 - i\<close> and \<open>-2-i\<close> is \<open>n - 2 - i\<close>; both are in range for \<open>i < n - 1\<close>.
\<close>

definition cold_fluid_step ::
  "laser_pulse \<Rightarrow> real list \<Rightarrow> real \<Rightarrow> real \<Rightarrow> real \<Rightarrow> real list list \<Rightarrow> nat
     \<Rightarrow> real list list \<times> real list list \<times> real list
     \<Rightarrow> real list list \<times> real list list \<times> real list" where
  "cold_fluid_step driver r s_d dz dist_z_foc beam_hist i st =
     (case st of (u_1, u_2, z_arr) \<Rightarrow>
        let n = length u_1;
            z = z_arr ! (length z_arr - 1) - real i * dz;
            a0_0 = get_a0_profile driver r (z * s_d) dist_z_foc;
            a0_1 = get_a0_profile driver r ((z - dz / 2) * s_d) dist_z_foc;
            a0_2 = get_a0_profile driver r ((z - dz) * s_d) dist_z_foc;
            u1 = u_1 ! (n - 1 - i);
            u2 = u_2 ! (n - 1 - i);
            nb = beam_hist ! (length beam_hist - (i + 1));
            A = pscale dz (wakefield_ode_system u1 u2 r (z * s_d) a0_0 nb);
            B = pscale dz (wakefield_ode_system (vadd u1 (vscale (1 / 2) (fst A)))
                             (vadd u2 (vscale (1 / 2) (snd A))) r ((z - dz / 2) * s_d) a0_1 nb);
            C = pscale dz (wakefield_ode_system (vadd u1 (vscale (1 / 2) (fst B)))
                             (vadd u2 (vscale (1 / 2) (snd B))) r ((z - dz / 2) * s_d) a0_1 nb);
            D = pscale dz (wakefield_ode_system (vadd u1 (fst C)) (vadd u2 (snd C)) r
                             ((z - dz) * s_d) a0_2 nb)
        in (u_1[n - 2 - i := vadd u1 (vscale (1 / 6)
                   (vadd (vadd (vadd (fst A) (vscale 2 (fst B))) (vscale 2 (fst C))) (fst D)))],
            u_2[n - 2 - i := vadd u2 (vscale (1 / 6)
                   (vadd (vadd (vadd (snd A) (vscale 2 (snd B))) (vscale 2 (snd C))) (snd D)))],
            z_arr[n - 2 - i := z - dz]))"

text \<open>
  Lines 288 to 349: the sweep from \<open>xi_max\<close> down, the three gradients and the interpolators,
  stored in the object. \<open>np.gradient\<close> with \<open>edge_order=2\<close> raises for fewer than three points
  along the axis.
\<close>

definition solve_fields ::
  "numerics \<Rightarrow> cold_fluid_wakefield \<Rightarrow> real \<Rightarrow> real \<Rightarrow> real list \<Rightarrow> real \<Rightarrow> real \<Rightarrow> real
     \<Rightarrow> real list list \<Rightarrow> cold_fluid_wakefield result" where
  "solve_fields nm w t n_p r s_d dz dr beam_hist =
     (let n_iter = cf_n_xi w - 1;
          u_1 = replicate (n_iter + 1) (replicate (length r) 0);
          u_2 = replicate (n_iter + 1) (replicate (length r) 0);
          z_arr = (replicate (n_iter + 1) 0)[n_iter := cf_xi_max w / s_d];
          dist_z_foc = (if cf_driver_evolution w then cf_driver_z_foc w - ct_c * t else 0);
          (u_1, u_2, z_arr) =
             fold (cold_fluid_step (cf_driver w) r s_d dz dist_z_foc beam_hist) [0..<n_iter]
               (u_1, u_2, z_arr)
      in if cf_n_xi w < 3 \<or> cf_n_r w < 3 then Inl ValueError
         else
           let E_z = map (map uminus) (gradient nm u_1 dz 0);
               W_r = map (map uminus) (gradient nm u_1 dr 1);
               K_r = gradient nm W_r dr 1;
               E_0 = wave_breaking_field nm (n_p * (1 / 10 ^ 6));
               z_axis = map (\<lambda>z. z * s_d) z_arr
           in Inr (w\<lparr>cf_E_z := Some \<lparr>gi_axis0 = z_axis, gi_axis1 = r,
                                      gi_values = map (map (\<lambda>v. v * E_0)) E_z\<rparr>,
                     cf_W_x := Some \<lparr>gi_axis0 = z_axis, gi_axis1 = r,
                                      gi_values = map (map (\<lambda>v. v * E_0)) W_r\<rparr>,
                     cf_K_x := Some \<lparr>gi_axis0 = z_axis, gi_axis1 = r,
                                      gi_values = map (map (\<lambda>v. v * E_0 / s_d)) K_r\<rparr>\<rparr>))"

text \<open>
  \<open>__calculate_wakefields\<close>, returning the object as the call leaves it. The histogram of the
  beam is computed and normalised, and handed to the sweep.
\<close>

definition calculate_wakefields ::
  "numerics \<Rightarrow> cold_fluid_wakefield \<Rightarrow> real list \<Rightarrow> real list \<Rightarrow> real list \<Rightarrow> real list \<Rightarrow> real
     \<Rightarrow> cold_fluid_wakefield result" where
  "calculate_wakefields nm w x y xi q t =
     (if cf_current_t w = t then Inr w
      else
        let w = w\<lparr>cf_current_t := t\<rparr>;
            z_beam = t * ct_c + np_mean xi;
            n_p = cf_density_function w z_beam
        in if Some n_p = cf_current_n_p w \<and> \<not> cf_driver_evolution w then Inr w
           else
             let w = w\<lparr>cf_current_n_p := Some n_p\<rparr>;
                 s_d = plasma_skin_depth nm (n_p * (1 / 10 ^ 6));
                 r = np_linspace 0 (cf_r_max w) (cf_n_r w)
             in if cf_n_xi w = 0 \<or> cf_n_r w = 0 then Inl ZeroDivisionError
                else
                  let dz = (cf_xi_max w - cf_xi_min w) / real (cf_n_xi w) / s_d;
                      dr = cf_r_max w / real (cf_n_r w) / s_d;
                      r_part = map2 (\<lambda>x y. sqrt (x\<^sup>2 + y\<^sup>2)) x y
                  in rbind (histogram2d nm xi r_part (cf_n_xi w) (cf_n_r w)
                              (cf_xi_min w, cf_xi_max w) (0, cf_r_max w)
                              (map (\<lambda>q. q / ct_e) q)) (\<lambda>beam_hist.
                       let disc_area = map (\<lambda>n. pi * dr\<^sup>2 * (1 + 2 * real n)) [0..<cf_n_r w];
                           beam_hist = map (\<lambda>row. map2 (\<lambda>h a. h * (1 / (a * dz * n_p) / s_d ^ 3))
                                                     row disc_area) beam_hist
                       in solve_fields nm w t n_p r s_d dz dr beam_hist))"

section \<open>Beamline elements (\<open>beamline_elements.py\<close>)\<close>

text \<open>
  What the tracking methods take from outside the source: the number of cores, the
  integrator \<open>runge_kutta_4(matrix, WF, dt, iterations, t0)\<close> of \<open>wake_t.particle_tracking\<close>
  and VisualPIC's reader.
\<close>

record env =
  cpu_count :: nat
  runge_kutta_4 :: "real list list \<Rightarrow> wakefield \<Rightarrow> real \<Rightarrow> int \<Rightarrow> real \<Rightarrow> real list list result"
  DataContainer :: data_container

text \<open>
  The effects of a tracking call besides its result and the bunch it leaves: a field model
  built, the worker pool created and released. Console output and timing are left out.
\<close>

datatype effect = FieldBuilt | PoolCreated nat | PoolClosed | PoolJoined

type_synonym tracked = "particle_bunch list result \<times> particle_bunch \<times> effect list"

record plasma_stage =
  s_n_p :: real
  s_length :: real

record plasma_ramp =
  r_length :: real
  r_plasma_dens_down :: real
  r_position_down :: real
  r_plasma_dens_top :: real
  r_ramp_type :: string
  r_profile :: string

definition PlasmaRamp_init ::
  "real \<Rightarrow> real \<Rightarrow> real \<Rightarrow> real option \<Rightarrow> string \<Rightarrow> string \<Rightarrow> plasma_ramp" where
  "PlasmaRamp_init len plasma_dens_down plasma_dens_top position_down ramp_type profile =
     \<lparr>r_length = len, r_plasma_dens_down = plasma_dens_down,
      r_position_down = (case position_down of None \<Rightarrow> len | Some p \<Rightarrow> p),
      r_plasma_dens_top = plasma_dens_top, r_ramp_type = ramp_type, r_profile = profile\<rparr>"

text \<open>\<open>_gamma\<close>, the same in both classes.\<close>

definition gamma_of :: "real list \<Rightarrow> real list \<Rightarrow> real list \<Rightarrow> real list" where
  "gamma_of px py pz = map (\<lambda>(px, py, pz). sqrt (1 + px\<^sup>2 + py\<^sup>2 + pz\<^sup>2)) (zip px (zip py pz))"

text \<open>\<open>int(r)\<close> on a float truncates towards zero.\<close>

definition py_int :: "real \<Rightarrow> int" where
  "py_int r = (if 0 \<le> r then \<lfloor>r\<rfloor> else \<lceil>r\<rceil>)"

subsection \<open>The orchestration shared by the stage and the ramp\<close>

text \<open>
  Lines 171 to 175 of the stage and 477 to 481 of the ramp: the iterations per step, the
  total number of iterations and the adjusted time step. A time step \<open>dt\<close> that numpy
  computes as \<open>inf\<close> (no focusing) gives \<open>t_final/dt = 0\<close>, as HOL's division by \<open>0\<close> does.
\<close>

definition plan_iterations :: "real \<Rightarrow> real \<Rightarrow> int \<Rightarrow> int \<times> int \<times> real" where
  "plan_iterations t_final dt steps =
     (let iterations = py_int (t_final / dt);
          it_per_step = max (py_int (real_of_int iterations / real_of_int steps)) 1;
          iterations = it_per_step * steps;
          dt_adjusted = t_final / real_of_int iterations
      in (it_per_step, iterations, dt_adjusted))"

text \<open>\<open>int(np.ceil(num_part/num_proc))\<close> for a positive number of processes.\<close>

definition part_per_proc_of :: "nat \<Rightarrow> nat \<Rightarrow> nat" where
  "part_per_proc_of num_part num_proc = nat \<lceil>real num_part / real num_proc\<rceil>"

text \<open>The first loop: \<open>mat[:, p*part_per_proc:(p+1)*part_per_proc]\<close> for each process \<open>p\<close>.\<close>

definition split_matrix :: "real list list \<Rightarrow> nat \<Rightarrow> nat \<Rightarrow> real list list list" where
  "split_matrix mat num_proc part_per_proc =
     map (\<lambda>p. map (\<lambda>row. py_slice row (p * part_per_proc) ((p + 1) * part_per_proc)) mat)
       [0..<num_proc]"

text \<open>
  \<open>np.concatenate(matrix_list, axis=1)\<close>: the rows of the blocks joined in the order of the
  blocks; no block, or blocks that differ in their number of rows, raise \<open>ValueError\<close>.
\<close>

definition np_concatenate_axis1 :: "real list list list \<Rightarrow> real list list result" where
  "np_concatenate_axis1 blocks =
     (case blocks of
        [] \<Rightarrow> Inl ValueError
      | blk # rest \<Rightarrow>
          if list_all (\<lambda>b. length b = length blk) rest
          then Inr (map (\<lambda>r. concat (map (\<lambda>b. b ! r) blocks)) [0..<length blk])
          else Inl ValueError)"

text \<open>\<open>process_pool.map(f, xs)\<close>: the results in the order of \<open>xs\<close>, or the first failure.\<close>

fun pool_map :: "('a \<Rightarrow> 'b result) \<Rightarrow> 'a list \<Rightarrow> 'b list result" where
  "pool_map f [] = Inr []"
| "pool_map f (x # xs) = rbind (f x) (\<lambda>y. rbind (pool_map f xs) (\<lambda>ys. Inr (y # ys)))"

text \<open>
  One pass of the loop over the output steps. Only the stage's loop has the field update,
  and only \<open>WakefieldFromPICSimulation\<close> has a method \<open>check_if_update_fields\<close>.
\<close>

definition update_fields :: "env \<Rightarrow> wakefield \<Rightarrow> real \<Rightarrow> wakefield result" where
  "update_fields e WF time =
     (case WF of
        WF_FromPIC w \<Rightarrow> rbind (check_if_update_fields (DataContainer e) w time) (\<lambda>w'. Inr (WF_FromPIC w'))
      | _ \<Rightarrow> Inl AttributeError)"

definition track_step ::
  "env \<Rightarrow> bool \<Rightarrow> particle_bunch \<Rightarrow> real \<Rightarrow> real \<Rightarrow> int \<Rightarrow> nat
     \<Rightarrow> wakefield \<times> real list list list \<times> particle_bunch list
     \<Rightarrow> (wakefield \<times> real list list list \<times> particle_bunch list) result" where
  "track_step e auto_update_fields beam t_step dt_adjusted it_per_step s st =
     (case st of (WF, matrix_list, beam_list) \<Rightarrow>
        rbind (if auto_update_fields then update_fields e WF (real s * t_step) else Inr WF) (\<lambda>WF.
        rbind (pool_map (\<lambda>m. runge_kutta_4 e m WF dt_adjusted it_per_step (real s * t_step))
                 matrix_list) (\<lambda>matrix_list.
        rbind (np_concatenate_axis1 matrix_list) (\<lambda>beam_matrix.
          case beam_matrix of
            [x, px, y, py, xi, pz] \<Rightarrow>
              Inr (WF, matrix_list,
                   beam_list @ [ParticleBunch (pb_q beam) x y xi px py pz
                                  (prop_distance beam + (real s + 1) * t_step * ct_c)])
          | _ \<Rightarrow> Inl ValueError))))"

fun step_loop :: "(nat \<Rightarrow> 'a \<Rightarrow> 'a result) \<Rightarrow> nat list \<Rightarrow> 'a \<Rightarrow> 'a result" where
  "step_loop f [] st = Inr st"
| "step_loop f (s # ss) st = rbind (f s st) (step_loop f ss)"

text \<open>
  Lines 171 to 220 of the stage and 477 to 524 of the ramp, from the time step \<open>dt\<close> on:
  planning, the pool, the split, the loop over the steps under \<open>try ... finally\<close>, and
  the commit into the bunch. \<open>tr\<close> are the effects so far.
\<close>

definition rk_parallel ::
  "env \<Rightarrow> bool \<Rightarrow> wakefield \<Rightarrow> real \<Rightarrow> particle_bunch \<Rightarrow> real list list \<Rightarrow> int \<Rightarrow> int option \<Rightarrow> real
     \<Rightarrow> effect list \<Rightarrow> tracked" where
  "rk_parallel e auto_update_fields WF len beam mat steps n_proc dt tr =
     (let t_final = len / ct_c;
          t_step = t_final / real_of_int steps;
          (it_per_step, iterations, dt_adjusted) = plan_iterations t_final dt steps;
          num_proc = (case n_proc of None \<Rightarrow> int (cpu_count e) | Some n \<Rightarrow> n);
          num_part = length (hd mat)
      in if num_proc = 0 then (Inl ZeroDivisionError, beam, tr)
         else if num_proc < 1 then (Inl ValueError, beam, tr)
         else
           let part_per_proc = part_per_proc_of num_part (nat num_proc);
               matrix_list = split_matrix mat (nat num_proc) part_per_proc;
               tr = tr @ [PoolCreated (nat num_proc), PoolClosed, PoolJoined]
           in case step_loop (track_step e auto_update_fields beam t_step dt_adjusted it_per_step)
                     [0..<nat steps] (WF, matrix_list, []) of
                Inl err \<Rightarrow> (Inl err, beam, tr)
              | Inr (WF, matrix_list, beam_list) \<Rightarrow>
                  if beam_list = [] then (Inl IndexError, beam, tr)
                  else
                    let last_beam = last beam_list;
                        beam = set_phase_space beam (pb_x last_beam) (pb_y last_beam)
                                 (pb_xi last_beam) (pb_px last_beam) (pb_py last_beam)
                                 (pb_pz last_beam);
                        beam = increase_prop_distance beam len
                    in (Inr beam_list, beam, tr))"

subsection \<open>\<open>PlasmaStage\<close>\<close>

text \<open>The keyword arguments of \<open>PlasmaStage.track_beam_numerically_RK_parallel\<close>.\<close>

record rk_options =
  o_simulation_code :: "string option"
  o_simulation_path :: "string option"
  o_time_step :: "int option"
  o_auto_update_fields :: bool
  o_lon_field :: "real option"
  o_lon_field_slope :: "real option"
  o_foc_strength :: "real option"
  o_filter_fields :: bool
  o_filter_sigma :: real
  o_n_proc :: "int option"

text \<open>
  Lines 155 to 164. \<open>BlowoutWakefield\<close> is looked up among the global names of the module;
  it is not one of them, so the continuation of the lookup is never taken. A mode that
  matches no branch leaves \<open>WF\<close> unbound (\<open>None\<close>).
\<close>

definition stage_select_WF ::
  "env \<Rightarrow> plasma_stage \<Rightarrow> laser_pulse \<Rightarrow> particle_bunch \<Rightarrow> string \<Rightarrow> rk_options
     \<Rightarrow> wakefield option result" where
  "stage_select_WF e stage laser beam mode opts =
     rbind (if mode = ''Blowout''
            then rbind (py_lookup beamline_elements_names ''BlowoutWakefield'') (\<lambda>_. Inr ())
            else Inr ()) (\<lambda>_.
       if mode = ''CustomBlowout'' then
         rbind (np_average (pb_xi beam) (pb_q beam)) (\<lambda>beam_center.
           Inr (Some (WF_CustomBlowout
             (CustomBlowoutWakefield_init (s_n_p stage) laser beam_center (o_lon_field opts)
                (o_lon_field_slope opts) (o_foc_strength opts) 0))))
       else if mode = ''FromPICCode'' then
         rbind (WakefieldFromPICSimulation_init (DataContainer e) (o_simulation_code opts)
                  (o_simulation_path opts) laser (o_time_step opts) (s_n_p stage)
                  (o_filter_fields opts) (o_filter_sigma opts) False) (\<lambda>w.
           Inr (Some (WF_FromPIC w)))
       else Inr None)"

text \<open>
  \<open>PlasmaStage._get_optimized_dt\<close>. The call of \<open>Kx\<close> passes eight arguments:
  \<open>WF.Kx(beam.x, beam.y, beam.xi, beam.px, beam.py, beam.pz, gamma, 0)\<close>. The result \<open>None\<close>
  stands for \<open>nan\<close>, which \<open>np.sqrt\<close> gives for a negative argument; \<open>int(t_final/dt)\<close>
  then raises \<open>ValueError\<close>.
\<close>

definition PlasmaStage_get_optimized_dt :: "particle_bunch \<Rightarrow> wakefield \<Rightarrow> real option result" where
  "PlasmaStage_get_optimized_dt beam WF =
     (let gamma = gamma_of (pb_px beam) (pb_py beam) (pb_pz beam) in
      rbind (Wakefield_Kx WF [Arr (pb_x beam), Arr (pb_y beam), Arr (pb_xi beam), Arr (pb_px beam),
                              Arr (pb_py beam), Arr (pb_pz beam), Arr gamma, Num 0]) (\<lambda>Kx.
      rbind (np_average Kx (pb_q beam)) (\<lambda>mean_Kx.
      rbind (np_average gamma (pb_q beam)) (\<lambda>mean_gamma.
        let radicand = ct_e * ct_c / ct_m_e * mean_Kx / mean_gamma
        in if radicand < 0 then Inr None
           else
             let w_x = sqrt radicand;
                 T_x = 1 / w_x;
                 dt = (1 / 10) * T_x
             in Inr (Some dt)))))"

definition PlasmaStage_track_beam_numerically_RK_parallel ::
  "env \<Rightarrow> plasma_stage \<Rightarrow> laser_pulse \<Rightarrow> particle_bunch \<Rightarrow> string \<Rightarrow> int \<Rightarrow> rk_options \<Rightarrow> tracked" where
  "PlasmaStage_track_beam_numerically_RK_parallel e stage laser beam mode steps opts =
     (case stage_select_WF e stage laser beam mode opts of
        Inl err \<Rightarrow> (Inl err, beam, [])
      | Inr WF \<Rightarrow>
          let tr = (if WF = None then [] else [FieldBuilt]);
              mat = get_6D_matrix beam
          in if steps = 0 then (Inl ZeroDivisionError, beam, tr)
             else (case WF of
                     None \<Rightarrow> (Inl UnboundLocalError, beam, tr)
                   | Some WF \<Rightarrow>
                       (case PlasmaStage_get_optimized_dt beam WF of
                          Inl err \<Rightarrow> (Inl err, beam, tr)
                        | Inr None \<Rightarrow> (Inl ValueError, beam, tr)
                        | Inr (Some dt) \<Rightarrow>
                            rk_parallel e (o_auto_update_fields opts) WF (s_length stage) beam mat
                              steps (o_n_proc opts) dt tr)))"

subsection \<open>\<open>PlasmaStage.track_beam_analytically\<close>\<close>

text \<open>
  A particle is the tuple \<open>(x, y, xi, px, py, pz)\<close> of its entries in the six arrays; the
  array expressions of the source are evaluated particle by particle, a scalar being
  broadcast to every particle. Powers with a fractional exponent are \<open>powr\<close>.
\<close>

type_synonym particle = "real \<times> real \<times> real \<times> real \<times> real \<times> real"

definition particles :: "particle_bunch \<Rightarrow> particle list" where
  "particles b = zip (pb_x b) (zip (pb_y b) (zip (pb_xi b) (zip (pb_px b) (zip (pb_py b) (pb_pz b)))))"

definition bunch_of_particles :: "real list \<Rightarrow> particle list \<Rightarrow> real \<Rightarrow> particle_bunch" where
  "bunch_of_particles q ps pd =
     ParticleBunch q (map (\<lambda>(x, y, xi, px, py, pz). x) ps) (map (\<lambda>(x, y, xi, px, py, pz). y) ps)
       (map (\<lambda>(x, y, xi, px, py, pz). xi) ps) (map (\<lambda>(x, y, xi, px, py, pz). px) ps)
       (map (\<lambda>(x, y, xi, px, py, pz). py) ps) (map (\<lambda>(x, y, xi, px, py, pz). pz) ps) pd"

text \<open>The fields \<open>(E, E_p, K)\<close> at a particle at distance \<open>dist_l_b\<close> from the laser, by mode.\<close>

definition blowout_fields :: "real \<Rightarrow> real \<Rightarrow> real \<times> real \<times> real" where
  "blowout_fields n_p dist_l_b =
     (let w_p = sqrt (n_p * 10 ^ 6 * ct_e\<^sup>2 / (ct_m_e * ct_epsilon_0));
          l_p = 2 * pi * ct_c / w_p;
          E_p = - (w_p\<^sup>2) / (2 * ct_c);
          K = w_p\<^sup>2 / 2;
          E = E_p * (l_p / 2 + dist_l_b)
      in (E, E_p, K))"

definition custom_blowout_fields :: "real \<Rightarrow> real \<Rightarrow> real \<Rightarrow> real \<Rightarrow> real \<Rightarrow> real \<times> real \<times> real" where
  "custom_blowout_fields lon_field lon_field_slope foc_strength mean_xi_0 xi_0 =
     (let E_p = - lon_field_slope * ct_e / (ct_m_e * ct_c);
          K = foc_strength * ct_c * ct_e / ct_m_e;
          E = - lon_field * ct_e / (ct_m_e * ct_c) + E_p * (xi_0 - mean_xi_0)
      in (E, E_p, K))"

definition linear_fields :: "real \<Rightarrow> real \<Rightarrow> real \<Rightarrow> real \<Rightarrow> real \<times> real \<times> real" where
  "linear_fields n_p a0 w_0_l dist_l_b =
     (let n_p_SI = n_p * 10 ^ 6;
          w_p = sqrt (n_p_SI * ct_e\<^sup>2 / (ct_m_e * ct_epsilon_0));
          k_p = w_p / ct_c;
          E0 = ct_m_e * ct_c * w_p / ct_e;
          K = (8 * pi / exp 1) powr (1 / 4) * a0 / (k_p * w_0_l);
          E_z = E0 * sqrt (pi / (2 * exp 1)) * a0\<^sup>2 * cos (k_p * dist_l_b);
          E_z_p = - E0 * sqrt (pi / (2 * exp 1)) * a0\<^sup>2 * k_p * sin (k_p * dist_l_b);
          g_x = - E0 * K\<^sup>2 * k_p * sin (k_p * dist_l_b) / ct_c;
          E = - ct_e / (ct_m_e * ct_c) * E_z;
          E_p = - ct_e / (ct_m_e * ct_c) * E_z_p;
          K = g_x * ct_c * ct_e / ct_m_e
      in (E, E_p, K))"

definition linear_alberto_fields :: "real \<Rightarrow> real \<Rightarrow> real \<Rightarrow> real \<Rightarrow> real \<times> real \<times> real" where
  "linear_alberto_fields n_p a0 w_0_l dist_l_b =
     (let n_p_SI = n_p * 10 ^ 6;
          w_p = sqrt (n_p_SI * ct_e\<^sup>2 / (ct_m_e * ct_epsilon_0));
          k_p = w_p / ct_c;
          E0 = ct_m_e * ct_c * w_p / ct_e;
          nb0 = a0\<^sup>2 / 2;
          L = sqrt 2;
          sz = L / sqrt 2;
          sx = w_0_l / 2;
          E_z = E0 * nb0 * sqrt (2 * pi) * sz * exp (- (sz\<^sup>2) / 2) * cos (k_p * dist_l_b);
          E_z_p = - E0 * nb0 * sqrt (2 * pi) * sz * exp (- (sz\<^sup>2) / 2) * k_p
                    * sin (k_p * dist_l_b);
          g_x = - nb0 * sqrt (2 * pi) * sz * exp (- (sz\<^sup>2) / 2) * (1 / (k_p * sx)\<^sup>2)
                  * sin (k_p * dist_l_b) * k_p * E0 / ct_c;
          E = - ct_e / (ct_m_e * ct_c) * E_z;
          E_p = - ct_e / (ct_m_e * ct_c) * E_z_p;
          K = g_x * ct_c * ct_e / ct_m_e
      in (E, E_p, K))"

text \<open>
  The dispatch on \<open>mode\<close>, lines 260 to 320. The class has no method
  \<open>get_fields_from_osiris_2D\<close> or \<open>get_fields_from_osiris_3D\<close>; a mode that matches no branch
  leaves \<open>K\<close> unbound (\<open>None\<close>).
\<close>

definition analytic_fields ::
  "plasma_stage \<Rightarrow> laser_pulse \<Rightarrow> string \<Rightarrow> real option \<Rightarrow> real option \<Rightarrow> real option \<Rightarrow> real list
     \<Rightarrow> (real \<times> real \<times> real) list option result" where
  "analytic_fields stage laser mode lon_field lon_field_slope foc_strength xi_0 =
     (let dist_l_b = (\<lambda>xi. - (l_xi_c laser - xi)) in
      if mode = ''Blowout'' then
        Inr (Some (map (\<lambda>xi. blowout_fields (s_n_p stage) (dist_l_b xi)) xi_0))
      else if mode = ''CustomBlowout'' then
        rbind (py_num lon_field_slope) (\<lambda>slope.
        rbind (py_num foc_strength) (\<lambda>foc.
        rbind (py_num lon_field) (\<lambda>lon.
          Inr (Some (map (custom_blowout_fields lon slope foc (np_mean xi_0)) xi_0)))))
      else if mode = ''Linear'' then
        Inr (Some (map (\<lambda>xi. linear_fields (s_n_p stage) (l_a_0 laser) (l_w_0 laser) (dist_l_b xi))
                     xi_0))
      else if mode = ''LinearAlberto'' then
        Inr (Some (map (\<lambda>xi. linear_alberto_fields (s_n_p stage) (l_a_0 laser) (l_w_0 laser)
                               (dist_l_b xi)) xi_0))
      else if mode = ''FromOsiris2D'' \<or> mode = ''FromOsiris3D'' then Inl AttributeError
      else Inr None)"

text \<open>
  Lines 324 to 344 for one particle: \<open>(g_0, w_0, A_x, A_y, phi_x_0, phi_y_0)\<close> from the
  particle and its focusing \<open>K\<close>.
\<close>

definition initial_values :: "particle \<Rightarrow> real \<Rightarrow> real \<times> real \<times> real \<times> real \<times> real \<times> real" where
  "initial_values p K =
     (case p of (x_0, y_0, xi_0, px, py, pz) \<Rightarrow>
        let px_0 = px * ct_m_e * ct_c;
            py_0 = py * ct_m_e * ct_c;
            pz_0 = pz * ct_m_e * ct_c;
            p_0 = sqrt (px_0\<^sup>2 + py_0\<^sup>2 + pz_0\<^sup>2);
            g_0 = sqrt ((p_0 * ct_c)\<^sup>2 + (511 / 1000 * 10 ^ 6 * ct_e)\<^sup>2)
                    / (511 / 1000 * 10 ^ 6 * ct_e);
            w_0 = sqrt (K / g_0);
            v_x_0 = px_0 / (ct_m_e * g_0);
            v_y_0 = py_0 / (ct_m_e * g_0);
            A_x = sqrt (x_0\<^sup>2 + v_x_0\<^sup>2 / w_0\<^sup>2);
            A_y = sqrt (y_0\<^sup>2 + v_y_0\<^sup>2 / w_0\<^sup>2);
            sn_x = - v_x_0 / (A_x * w_0);
            cs_x = x_0 / A_x;
            phi_x_0 = np_arctan2 sn_x cs_x;
            sn_y = - v_y_0 / (A_y * w_0);
            cs_y = y_0 / A_y;
            phi_y_0 = np_arctan2 sn_y cs_y
        in (g_0, w_0, A_x, A_y, phi_x_0, phi_y_0))"

text \<open>\<open>_get_beam_at_specified_time_step_from_paper_final\<close> for one particle.\<close>

definition particle_at_time ::
  "real \<Rightarrow> real \<Rightarrow> particle \<Rightarrow> real \<times> real \<times> real \<Rightarrow> particle" where
  "particle_at_time t v_w p f =
     (case f of (E, E_p, K) \<Rightarrow>
      case p of (x_0, y_0, xi_0, px, py, pz) \<Rightarrow>
      case initial_values p K of (g_0, w_0, A_x, A_y, phi_x_0, phi_y_0) \<Rightarrow>
        let G = 1 + E / g_0 * t;
            phi = 2 * sqrt (K * g_0) / E * (G powr (1 / 2) - 1);
            A_0 = sqrt (A_x\<^sup>2 + A_y\<^sup>2);
            x = A_x * G powr (- 1 / 4) * cos (phi + phi_x_0);
            v_x = - w_0 * A_x * G powr (- 3 / 4) * sin (phi + phi_x_0);
            p_x = G * g_0 * v_x / ct_c;
            y = A_y * G powr (- 1 / 4) * cos (phi + phi_y_0);
            v_y = - w_0 * A_y * G powr (- 3 / 4) * sin (phi + phi_y_0);
            p_y = G * g_0 * v_y / ct_c;
            delta_xi = ct_c / (2 * E * g_0) * (inverse G - 1)
                       + A_0\<^sup>2 * K / (2 * ct_c * E) * (G powr (- 1 / 2) - 1);
            xi = xi_0 + delta_xi;
            delta_xi_max = - 1 / (2 * E) * (ct_c / g_0 + A_0\<^sup>2 * K / ct_c);
            g = g_0 + E * t + E_p * delta_xi_max * t + E_p / 2 * (ct_c - v_w) * t\<^sup>2
                + ct_c * E_p / (2 * E\<^sup>2) * ln G
                + E_p * A_0\<^sup>2 * K * g_0 / (ct_c * E\<^sup>2) * (G powr (1 / 2) - 1);
            p_z = sqrt (g\<^sup>2 - p_x\<^sup>2 - p_y\<^sup>2)
        in (x, y, xi, p_x, p_y, p_z))"

definition beam_at_time ::
  "particle_bunch \<Rightarrow> (real \<times> real \<times> real) list \<Rightarrow> real \<Rightarrow> real \<Rightarrow> particle_bunch" where
  "beam_at_time beam flds v_w t =
     bunch_of_particles (pb_q beam)
       (map2 (particle_at_time t v_w) (particles beam) flds)
       (prop_distance beam + t * ct_c)"

type_synonym tracked_analytically =
  "particle_bunch list result \<times> particle_bunch \<times> laser_pulse \<times> effect list"

text \<open>
  The method itself. The pool is created before \<open>t_final/steps\<close> is computed and is not
  released. At the end the bunch and the laser are updated.
\<close>

definition PlasmaStage_track_beam_analytically ::
  "env \<Rightarrow> plasma_stage \<Rightarrow> laser_pulse \<Rightarrow> particle_bunch \<Rightarrow> string \<Rightarrow> int
     \<Rightarrow> real option \<Rightarrow> real option \<Rightarrow> real option \<Rightarrow> tracked_analytically" where
  "PlasmaStage_track_beam_analytically e stage laser beam mode steps lon_field lon_field_slope
       foc_strength =
     (let v_w = get_group_velocity laser (s_n_p stage) * ct_c;
          t_final = s_length stage / ct_c
      in case analytic_fields stage laser mode lon_field lon_field_slope foc_strength (pb_xi beam) of
           Inl err \<Rightarrow> (Inl err, beam, laser, [])
         | Inr None \<Rightarrow> (Inl UnboundLocalError, beam, laser, [])
         | Inr (Some flds) \<Rightarrow>
             let tr = [PoolCreated (cpu_count e)] in
             if steps = 0 then (Inl ZeroDivisionError, beam, laser, tr)
             else
               let t = map (\<lambda>i. t_final / real_of_int steps * (real i + 1)) [0..<nat steps];
                   beam_steps_list = map (beam_at_time beam flds v_w) t
               in if beam_steps_list = [] then (Inl IndexError, beam, laser, tr)
                  else
                    let last_beam = last beam_steps_list;
                        beam = set_phase_space beam (pb_x last_beam) (pb_y last_beam)
                                 (pb_xi last_beam) (pb_px last_beam) (pb_py last_beam)
                                 (pb_pz last_beam);
                        beam = increase_prop_distance beam (s_length stage);
                        laser = laser_increase_prop_distance laser (s_length stage);
                        laser = laser\<lparr>l_xi_c := l_xi_c laser + (v_w - ct_c) * t_final\<rparr>
                    in (Inr beam_steps_list, beam, laser, tr))"

subsection \<open>\<open>PlasmaRamp\<close>\<close>

text \<open>\<open>PlasmaRamp._get_optimized_dt\<close>, with \<open>None\<close> for \<open>nan\<close> as on the stage.\<close>

definition PlasmaRamp_get_optimized_dt ::
  "plasma_ramp \<Rightarrow> particle_bunch \<Rightarrow> plasma_ramp_blowout_field \<Rightarrow> real option result" where
  "PlasmaRamp_get_optimized_dt ramp beam wakefield =
     (let gamma = gamma_of (pb_px beam) (pb_py beam) (pb_pz beam) in
      rbind (np_average gamma (pb_q beam)) (\<lambda>mean_gamma.
        let t = map (\<lambda>v. v / ct_c) (np_linspace 0 (r_length ramp) 100) in
        rbind (calculate_focusing wakefield (map (\<lambda>_. 0) t) t) (\<lambda>kx.
          let max_kx = Max (set kx);
              radicand = ct_e * ct_c / ct_m_e * max_kx / mean_gamma
          in if radicand < 0 then Inr None
             else
               let w_x = sqrt radicand;
                   period_x = 1 / w_x;
                   dt = (1 / 10) * period_x
               in Inr (Some dt))))"

text \<open>
  Lines 462 to 470: the constructor is called with four positional arguments and the
  keywords \<open>ramp_type\<close> and \<open>profile\<close>.
\<close>

definition PlasmaRamp_track_beam_numerically_RK_parallel ::
  "env \<Rightarrow> plasma_ramp \<Rightarrow> particle_bunch \<Rightarrow> int \<Rightarrow> bool \<Rightarrow> int option \<Rightarrow> tracked" where
  "PlasmaRamp_track_beam_numerically_RK_parallel e ramp beam steps non_rel n_proc =
     (if non_rel then (Inl NotImplementedError, beam, [])
      else
        (case PlasmaRampBlowoutField_init
                [Num (r_length ramp), Num (r_plasma_dens_down ramp), Num (r_plasma_dens_top ramp),
                 Num (r_position_down ramp)]
                [(''ramp_type'', Str (r_ramp_type ramp)), (''profile'', Str (r_profile ramp))] of
           Inl err \<Rightarrow> (Inl err, beam, [])
         | Inr field \<Rightarrow>
             let tr = [FieldBuilt];
                 mat = get_6D_matrix beam
             in if steps = 0 then (Inl ZeroDivisionError, beam, tr)
                else (case PlasmaRamp_get_optimized_dt ramp beam field of
                        Inl err \<Rightarrow> (Inl err, beam, tr)
                      | Inr None \<Rightarrow> (Inl ValueError, beam, tr)
                      | Inr (Some dt) \<Rightarrow>
                          rk_parallel e False (WF_RampBlowout field) (r_length ramp) beam mat
                            steps n_proc dt tr)))"

subsection \<open>Any tracking call\<close>

datatype tracking_call =
    StageNumerical plasma_stage laser_pulse string int rk_options
  | StageAnalytical plasma_stage laser_pulse string int "real option" "real option" "real option"
  | RampNumerical plasma_ramp int bool "int option"

fun element_length :: "tracking_call \<Rightarrow> real" where
  "element_length (StageNumerical stage laser mode steps opts) = s_length stage"
| "element_length (StageAnalytical stage laser mode steps lf lfs fs) = s_length stage"
| "element_length (RampNumerical ramp steps non_rel n_proc) = r_length ramp"

text \<open>The result of a call and the bunch after it.\<close>

fun run_tracking :: "env \<Rightarrow> tracking_call \<Rightarrow> particle_bunch \<Rightarrow> particle_bunch list result \<times> particle_bunch" where
  "run_tracking e (StageNumerical stage laser mode steps opts) beam =
     (case PlasmaStage_track_beam_numerically_RK_parallel e stage laser beam mode steps opts of
        (r, b, tr) \<Rightarrow> (r, b))"
| "run_tracking e (StageAnalytical stage laser mode steps lf lfs fs) beam =
     (case PlasmaStage_track_beam_analytically e stage laser beam mode steps lf lfs fs of
        (r, b, l, tr) \<Rightarrow> (r, b))"
| "run_tracking e (RampNumerical ramp steps non_rel n_proc) beam =
     (case PlasmaRamp_track_beam_numerically_RK_parallel e ramp beam steps non_rel n_proc of
        (r, b, tr) \<Rightarrow> (r, b))"

section \<open>Bunch generation (\<open>utilities/bunch_generation.py\<close>)\<close>

text \<open>
  The random numbers a call draws, by position in the drawn array: the four
  \<open>np.random.standard_normal\<close> arrays, and the standard variates that \<open>truncnorm.rvs\<close> and
  \<open>np.random.normal\<close> scale and shift.
\<close>

record rng =
  draw_u_x :: "nat \<Rightarrow> real"
  draw_v_x :: "nat \<Rightarrow> real"
  draw_u_y :: "nat \<Rightarrow> real"
  draw_v_y :: "nat \<Rightarrow> real"
  draw_xi :: "nat \<Rightarrow> real"
  draw_pz :: "nat \<Rightarrow> real"

text \<open>\<open>np.random.standard_normal(n)\<close>: a negative size raises.\<close>

definition standard_normal :: "(nat \<Rightarrow> real) \<Rightarrow> int \<Rightarrow> real list result" where
  "standard_normal z n = (if n < 0 then Inl ValueError else Inr (map z [0..<nat n]))"

text \<open>
  \<open>scipy.stats.truncnorm.rvs(a, b, loc, scale, size)\<close>: \<open>loc + scale*z\<close> for standard variates
  \<open>z\<close>, which scipy draws between \<open>a\<close> and \<open>b\<close>; it raises \<open>ValueError\<close> for a negative
  scale or for bounds that are not in order.
\<close>

definition truncnorm_rvs :: "(nat \<Rightarrow> real) \<Rightarrow> real \<Rightarrow> real \<Rightarrow> real \<Rightarrow> real \<Rightarrow> int \<Rightarrow> real list result" where
  "truncnorm_rvs z a b loc scale n =
     (if scale < 0 \<or> b \<le> a \<or> n < 0 then Inl ValueError
      else Inr (map (\<lambda>i. loc + scale * z i) [0..<nat n]))"

text \<open>\<open>np.random.normal(loc, scale, size)\<close>: a negative scale or size raises.\<close>

definition random_normal :: "(nat \<Rightarrow> real) \<Rightarrow> real \<Rightarrow> real \<Rightarrow> int \<Rightarrow> real list result" where
  "random_normal z loc scale n =
     (if scale < 0 \<or> n < 0 then Inl ValueError
      else Inr (map (\<lambda>i. loc + scale * z i) [0..<nat n]))"

text \<open>A division of two Python floats.\<close>

definition py_div :: "real \<Rightarrow> real \<Rightarrow> real result" where
  "py_div a b = (if b = 0 then Inl ZeroDivisionError else Inr (a / b))"

definition get_gaussian_bunch_from_twiss ::
  "rng \<Rightarrow> real \<Rightarrow> real \<Rightarrow> real \<Rightarrow> real \<Rightarrow> real \<Rightarrow> real \<Rightarrow> real \<Rightarrow> real \<Rightarrow> real \<Rightarrow> real \<Rightarrow> real \<Rightarrow> int
     \<Rightarrow> real \<Rightarrow> real \<Rightarrow> real \<Rightarrow> real \<Rightarrow> particle_bunch result" where
  "get_gaussian_bunch_from_twiss g en_x en_y a_x a_y b_x b_y ene ene_sp s_t xi_c q_tot n_part
       x_off y_off theta_x theta_y =
     (let ene_sp = ene_sp / 100;
          ene_sp_abs = ene_sp * ene;
          s_z = s_t * (1 / 10 ^ 15) * ct_c in
      rbind (py_div en_x ene) (\<lambda>em_x.
      rbind (py_div en_y ene) (\<lambda>em_y.
      rbind (py_div (1 + a_x\<^sup>2) b_x) (\<lambda>g_x.
      rbind (py_div (1 + a_y\<^sup>2) b_y) (\<lambda>g_y.
        let s_x = sqrt (em_x * b_x);
            s_y = sqrt (em_y * b_y);
            s_xp = sqrt (em_x * g_x);
            s_yp = sqrt (em_y * g_y);
            p_x = - a_x * em_x / (s_x * s_xp);
            p_y = - a_y * em_y / (s_y * s_yp);
            p_x_off = theta_x * ene;
            p_y_off = theta_y * ene;
            q_tot = q_tot / 10 ^ 12 in
        rbind (standard_normal (draw_u_x g) n_part) (\<lambda>u_x.
        rbind (standard_normal (draw_v_x g) n_part) (\<lambda>v_x.
        rbind (standard_normal (draw_u_y g) n_part) (\<lambda>u_y.
        rbind (standard_normal (draw_v_y g) n_part) (\<lambda>v_y.
          let x = map (\<lambda>u. s_x * u + x_off) u_x;
              xp = map2 (\<lambda>u v. s_xp * (p_x * u + sqrt (1 - p_x\<^sup>2) * v)) u_x v_x;
              y = map (\<lambda>u. s_y * u + y_off) u_y;
              yp = map2 (\<lambda>u v. s_yp * (p_y * u + sqrt (1 - p_y\<^sup>2) * v)) u_y v_y in
          rbind (truncnorm_rvs (draw_xi g) (- 3) 3 xi_c s_z n_part) (\<lambda>xi.
          rbind (random_normal (draw_pz g) ene ene_sp_abs n_part) (\<lambda>pz.
            let px = map2 (\<lambda>xp pz. xp * pz + p_x_off) xp pz;
                py = map2 (\<lambda>yp pz. yp * pz + p_y_off) yp pz in
            rbind (py_div q_tot (real_of_int n_part)) (\<lambda>q1.
              let q = map (\<lambda>_. 1 * q1) [0..<nat n_part]
              in Inr (ParticleBunch q x y xi px py pz 0)))))))))))))"

definition get_gaussian_bunch_from_size ::
  "rng \<Rightarrow> real \<Rightarrow> real \<Rightarrow> real \<Rightarrow> real \<Rightarrow> real \<Rightarrow> real \<Rightarrow> real \<Rightarrow> real \<Rightarrow> real \<Rightarrow> int
     \<Rightarrow> real \<Rightarrow> real \<Rightarrow> real \<Rightarrow> real \<Rightarrow> particle_bunch result" where
  "get_gaussian_bunch_from_size g en_x en_y s_x s_y ene ene_sp s_t xi_c q_tot n_part
       x_off y_off theta_x theta_y =
     rbind (py_div (s_x\<^sup>2 * ene) en_x) (\<lambda>b_x.
     rbind (py_div (s_y\<^sup>2 * ene) en_y) (\<lambda>b_y.
       get_gaussian_bunch_from_twiss g en_x en_y 0 0 b_x b_y ene ene_sp s_t xi_c q_tot n_part
         x_off y_off theta_x theta_y))"

text \<open>
  \<open>get_matched_bunch\<close>. \<open>ge\<close> is \<open>matched_plasma_beta_function(ene, n_p, k_x)\<close> of the
  external library aptools. The argument \<open>n_p*1e-6\<close> is computed before the call: with
  \<open>n_p = None\<close> the product raises \<open>TypeError\<close>.
\<close>

definition get_matched_bunch ::
  "(real \<Rightarrow> real \<Rightarrow> real option \<Rightarrow> real result) \<Rightarrow> rng
     \<Rightarrow> real \<Rightarrow> real \<Rightarrow> real \<Rightarrow> real \<Rightarrow> real \<Rightarrow> real \<Rightarrow> real \<Rightarrow> int
     \<Rightarrow> real \<Rightarrow> real \<Rightarrow> real \<Rightarrow> real \<Rightarrow> real option \<Rightarrow> real option \<Rightarrow> particle_bunch result" where
  "get_matched_bunch ge g en_x en_y ene ene_sp s_t xi_c q_tot n_part x_off y_off theta_x theta_y
       n_p k_x =
     rbind (py_num n_p) (\<lambda>n.
     rbind (ge ene (n * (1 / 10 ^ 6)) k_x) (\<lambda>b_m.
       get_gaussian_bunch_from_twiss g en_x en_y 0 0 b_m b_m ene ene_sp s_t xi_c q_tot n_part
         x_off y_off theta_x theta_y))"

text \<open>Draws for concrete evaluations: the truncated draw alternates between its two bounds.\<close>

definition zero_draw :: "nat \<Rightarrow> real" where
  "zero_draw i = 0"

definition bound_draw :: "nat \<Rightarrow> real" where
  "bound_draw i = (if even i then 3 else - 3)"

definition example_rng :: rng where
  "example_rng =
     \<lparr>draw_u_x = zero_draw, draw_v_x = zero_draw, draw_u_y = zero_draw, draw_v_y = zero_draw,
      draw_xi = bound_draw, draw_pz = zero_draw\<rparr>"

definition unit_beta :: "real \<Rightarrow> real \<Rightarrow> real option \<Rightarrow> real result" where
  "unit_beta ene n_p k_x = Inr 1"

text \<open>A laser whose group velocity is \<open>c\<close> and whose amplitude profile is zero, for concrete evaluations.\<close>

definition unit_group_velocity :: "real \<Rightarrow> real" where
  "unit_group_velocity n_p = 1"

definition zero_a0_profile :: "real list \<Rightarrow> real \<Rightarrow> real \<Rightarrow> real list" where
  "zero_a0_profile r z dist_z_foc = map (\<lambda>_. 0) r"

definition example_laser :: laser_pulse where
  "example_laser =
     \<lparr>l_xi_c = 0, l_a_0 = 1, l_w_0 = 1, l_prop_distance = 0,
      get_group_velocity = unit_group_velocity, get_a0_profile = zero_a0_profile\<rparr>"

text \<open>An environment with one core, an integrator that returns its block and no VisualPIC.\<close>

definition identity_integrator ::
  "real list list \<Rightarrow> wakefield \<Rightarrow> real \<Rightarrow> int \<Rightarrow> real \<Rightarrow> real list list result" where
  "identity_integrator m WF dt iterations t0 = Inr m"

definition example_env :: env where
  "example_env = \<lparr>cpu_count = 1, runge_kutta_4 = identity_integrator, DataContainer = None\<rparr>"

definition example_stage :: plasma_stage where
  "example_stage = \<lparr>s_n_p = 1, s_length = 1\<rparr>"

definition example_beam :: particle_bunch where
  "example_beam = ParticleBunch [1] [0] [0] [0] [0] [0] [1] 0"

text \<open>
  Concrete numerics: unit skin depth and wave-breaking field, a histogram whose every cell
  holds the sum of the weights, and a gradient that returns its argument.
\<close>

definition unit_scale :: "real \<Rightarrow> real" where
  "unit_scale n_p = 1"

definition total_histogram ::
  "real list \<Rightarrow> real list \<Rightarrow> nat \<Rightarrow> nat \<Rightarrow> real \<times> real \<Rightarrow> real \<times> real \<Rightarrow> real list
     \<Rightarrow> real list list result" where
  "total_histogram xs ys n_x n_y range_x range_y weights =
     Inr (replicate n_x (replicate n_y (sum_list weights)))"

definition same_gradient :: "real list list \<Rightarrow> real \<Rightarrow> nat \<Rightarrow> real list list" where
  "same_gradient a h axis = a"

definition example_numerics :: numerics where
  "example_numerics =
     \<lparr>plasma_skin_depth = unit_scale, wave_breaking_field = unit_scale,
      histogram2d = total_histogram, gradient = same_gradient\<rparr>"

definition example_cold_fluid :: cold_fluid_wakefield where
  "example_cold_fluid = NonLinearColdFluidWakefield_init unit_scale example_laser False 0 1 0 1 3 3"

text \<open>The window of C6 around \<open>xi_c\<close> for a bunch duration \<open>s_t\<close> in fs.\<close>

definition xi_window :: "real \<Rightarrow> real \<Rightarrow> particle_bunch \<Rightarrow> bool" where
  "xi_window xi_c s_t b =
     (let s_z = s_t * (1 / 10 ^ 15) * ct_c
      in list_all (\<lambda>xi. xi_c - 3 * s_z \<le> xi \<and> xi \<le> xi_c + 3 * s_z) (pb_xi b))"

section \<open>Properties\<close>

subsection \<open>The custom blowout field\<close>

text \<open>
  C3, as the code has it: for a \<open>CustomBlowoutWakefield\<close> constructed with longitudinal field
  \<open>E_z0\<close>, slope \<open>E_z'\<close> and any focusing gradient, \<open>Wz\<close> at every phase-space point and time
  \<open>t\<close> returns \<open>E_z0 + E_z'*(xi - field_offset - xi_c + (1 - b_w)*c*t)\<close>, where \<open>xi_c\<close> is the
  beam centre given at construction and \<open>b_w\<close> the driver's group velocity at the stage
  density: the stored \<open>E_z0\<close> and \<open>E_z'\<close> are the caller's values, not scaled.
\<close>

theorem CustomBlowoutWakefield_Wz_unscaled:
  "CustomBlowoutWakefield_Wz
     (CustomBlowoutWakefield_init n_p driver beam_center (Some E_z0) (Some E_zp) g_x field_offset)
     x y xi px py pz q gamma t
   = Inr (E_z0 + E_zp * (xi - field_offset - beam_center
                          + (1 - get_group_velocity driver n_p) * ct_c * t))"
  by (simp add: CustomBlowoutWakefield_Wz_def CustomBlowoutWakefield_init_def rbind_def py_num_def)

text \<open>
  C3, as the claim states it, fails: with \<open>E_z0 = 1\<close> V/m and \<open>E_z' = 0\<close> the code returns \<open>1\<close>,
  not \<open>e/(m_e*c)\<close>.
\<close>

theorem CustomBlowoutWakefield_Wz_scaled_counterexample:
  "CustomBlowoutWakefield_Wz
     (CustomBlowoutWakefield_init 1 example_laser 0 (Some 1) (Some 0) (Some 0) 0)
     0 0 0 0 0 1 0 1 0
   \<noteq> Inr (ct_e / (ct_m_e * ct_c) * 1
          + ct_e / (ct_m_e * ct_c) * 0
            * (0 - 0 - 0 + (1 - get_group_velocity example_laser 1) * ct_c * 0))"
  by (simp add: CustomBlowoutWakefield_Wz_def CustomBlowoutWakefield_init_def rbind_def py_num_def
        ct_e_def ct_m_e_def ct_c_def)

subsection \<open>Calls that raise before any tracking\<close>

lemma PlasmaRampBlowoutField_init_raises:
  "PlasmaRampBlowoutField_init [a, b, c, d] [(''ramp_type'', u), (''profile'', v)] = Inl TypeError"
  by (simp add: PlasmaRampBlowoutField_init_def py_call_def py_bind_ok_def)

lemma BlowoutWakefield_undefined:
  "py_lookup beamline_elements_names ''BlowoutWakefield'' = Inl NameError"
  by (simp add: py_lookup_def beamline_elements_names_def wakefields_names_def)

lemma PlasmaStage_get_optimized_dt_raises: "PlasmaStage_get_optimized_dt beam WF = Inl TypeError"
  by (simp add: PlasmaStage_get_optimized_dt_def rbind_def)

text \<open>
  C7: for every ramp and bunch, \<open>track_beam_numerically_RK_parallel\<close> with \<open>non_rel=True\<close>
  raises \<open>NotImplementedError\<close>, with no field model built and no pool created (no effect at
  all) and the bunch left as it was.
\<close>

theorem PlasmaRamp_non_rel_NotImplementedError:
  "PlasmaRamp_track_beam_numerically_RK_parallel e ramp beam steps True n_proc
   = (Inl NotImplementedError, beam, [])"
  by (simp add: PlasmaRamp_track_beam_numerically_RK_parallel_def)

text \<open>
  C1, on the code: with \<open>non_rel=False\<close> the construction of the field raises \<open>TypeError\<close>
  for every ramp and bunch, because the constructor takes one argument and is given six;
  no tracking takes place.
\<close>

theorem PlasmaRamp_field_construction_TypeError:
  "PlasmaRamp_track_beam_numerically_RK_parallel e ramp beam steps False n_proc
   = (Inl TypeError, beam, [])"
  by (simp add: PlasmaRamp_track_beam_numerically_RK_parallel_def
        PlasmaRampBlowoutField_init_raises)

text \<open>
  C2, on the code: with \<open>mode='Blowout'\<close> the stage raises \<open>NameError\<close> for every stage, laser
  and bunch, because no class \<open>BlowoutWakefield\<close> is defined; no field model is built.
\<close>

theorem PlasmaStage_Blowout_NameError:
  "PlasmaStage_track_beam_numerically_RK_parallel e stage laser beam ''Blowout'' steps opts
   = (Inl NameError, beam, [])"
  by (simp add: PlasmaStage_track_beam_numerically_RK_parallel_def stage_select_WF_def
        BlowoutWakefield_undefined rbind_def)

text \<open>
  C5, on the code: no numerical tracking call returns a list of snapshots. On the stage
  every call raises, at the latest in \<open>_get_optimized_dt\<close>, where \<open>Kx\<close> is called with eight
  arguments for nine parameters; on the ramp every call raises as in C1 and C7.
\<close>

theorem numerical_tracking_never_returns:
  "(\<exists>err. fst (PlasmaStage_track_beam_numerically_RK_parallel e stage laser beam mode steps opts)
            = Inl err)
   \<and> (\<exists>err. fst (PlasmaRamp_track_beam_numerically_RK_parallel e ramp beam steps non_rel n_proc)
              = Inl err)"
  by (auto simp add: PlasmaStage_track_beam_numerically_RK_parallel_def
        PlasmaStage_get_optimized_dt_raises PlasmaRamp_track_beam_numerically_RK_parallel_def
        PlasmaRampBlowoutField_init_raises Let_def split: sum.splits option.splits)

text \<open>
  A stage call in mode \<open>CustomBlowout\<close> with a bunch of non-zero total charge builds its
  field and then raises in \<open>_get_optimized_dt\<close>.
\<close>

lemma PlasmaStage_CustomBlowout_TypeError:
  assumes "sum_list (pb_q beam) \<noteq> 0" and "steps \<noteq> 0"
  shows "PlasmaStage_track_beam_numerically_RK_parallel e stage laser beam ''CustomBlowout'' steps
           opts = (Inl TypeError, beam, [FieldBuilt])"
  using assms
  by (simp add: PlasmaStage_track_beam_numerically_RK_parallel_def stage_select_WF_def
        np_average_def rbind_def PlasmaStage_get_optimized_dt_raises)

text \<open>
  The planning and the loop that such a call would reach do what C5 says of them: the loop
  adds one snapshot per step, the iterations per step are \<open>max(floor(floor(t_final/dt)/steps), 1)\<close>,
  and with more steps than \<open>int(t_final/dt)\<close> the adjusted time step is at most \<open>dt\<close>.
\<close>

lemma step_loop_length:
  "step_loop (track_step e au beam t_step dt it) ss (WF, ml, bl) = Inr (WF', ml', bl')
   \<Longrightarrow> length bl' = length bl + length ss"
proof (induction ss arbitrary: WF ml bl)
  case Nil
  then show ?case by simp
next
  case (Cons s ss)
  from Cons.prems obtain WF1 ml1 bl1 where
    st: "track_step e au beam t_step dt it s (WF, ml, bl) = Inr (WF1, ml1, bl1)" and
    rest: "step_loop (track_step e au beam t_step dt it) ss (WF1, ml1, bl1) = Inr (WF', ml', bl')"
    by (auto simp add: rbind_def split: sum.splits)
  from st have "length bl1 = length bl + 1"
    by (auto simp add: track_step_def rbind_def split: sum.splits list.splits if_splits)
  with Cons.IH [OF rest] show ?case by simp
qed

lemma rk_parallel_length:
  assumes "rk_parallel e au WF len beam mat steps n_proc dt tr = (Inr beam_list, beam', tr')"
  shows "int (length beam_list) = steps"
proof -
  from assms have "length beam_list = nat steps \<and> beam_list \<noteq> []"
    by (auto simp add: rk_parallel_def Let_def
        split: if_splits sum.splits prod.splits dest!: step_loop_length)
  then have l: "length beam_list = nat steps" and ne: "beam_list \<noteq> []" by blast+
  from ne have "0 < length beam_list" by (cases beam_list) simp_all
  with l have "0 < nat steps" by (simp only:)
  then have "0 < steps" by (simp only: zero_less_nat_eq)
  with l show ?thesis by (simp only: nat_0_le order.strict_implies_order)
qed

lemma py_int_nonneg: "0 \<le> r \<Longrightarrow> py_int r = \<lfloor>r\<rfloor>"
  by (simp add: py_int_def)

lemma py_int_nonpos: "r \<le> 0 \<Longrightarrow> py_int r \<le> 0"
  by (auto simp add: py_int_def ceiling_le_iff) 

lemma it_per_step_low:
  assumes "1 \<le> steps" and "py_int r < steps"
  shows "max (py_int (real_of_int (py_int r) / real_of_int steps)) 1 = 1"
proof (cases "0 \<le> py_int r")
  case True
  then have "0 \<le> real_of_int (py_int r) / real_of_int steps" using assms(1) by simp
  moreover have "real_of_int (py_int r) / real_of_int steps < 1" using assms by simp
  ultimately have "py_int (real_of_int (py_int r) / real_of_int steps) = 0"
    by (simp add: py_int_nonneg floor_eq_iff)
  then show ?thesis by simp
next
  case False
  then have "real_of_int (py_int r) / real_of_int steps \<le> 0"
    using assms(1) by (simp add: divide_nonpos_nonneg)
  then have "py_int (real_of_int (py_int r) / real_of_int steps) \<le> 0" by (rule py_int_nonpos)
  then show ?thesis by simp
qed

lemma it_per_step_eq:
  assumes "1 \<le> steps"
  shows "fst (plan_iterations t_final dt steps)
     = max \<lfloor>real_of_int \<lfloor>t_final / dt\<rfloor> / real_of_int steps\<rfloor> 1"
proof (cases "0 \<le> t_final / dt")
  case True
  then have "0 \<le> real_of_int \<lfloor>t_final / dt\<rfloor> / real_of_int steps" using assms by simp
  with True show ?thesis by (simp add: plan_iterations_def Let_def py_int_nonneg)
next
  case False
  then have neg: "t_final / dt < 0" by simp
  then have "py_int (t_final / dt) \<le> 0" by (simp add: py_int_nonpos)
  then have "py_int (t_final / dt) < steps" using assms by simp
  from it_per_step_low [OF assms this]
  have l: "fst (plan_iterations t_final dt steps) = 1" by (simp add: plan_iterations_def Let_def)
  from neg have "\<lfloor>t_final / dt\<rfloor> < 0" by linarith
  then have "real_of_int \<lfloor>t_final / dt\<rfloor> / real_of_int steps < 0"
    using assms by (simp add: divide_neg_pos)
  then have "\<lfloor>real_of_int \<lfloor>t_final / dt\<rfloor> / real_of_int steps\<rfloor> < 0" by linarith
  with l show ?thesis by simp
qed

lemma dt_adjusted_le:
  assumes "0 < dt" and "1 \<le> steps" and "py_int (t_final / dt) < steps"
  shows "snd (snd (plan_iterations t_final dt steps)) \<le> dt"
proof -
  have one: "max (py_int (real_of_int (py_int (t_final / dt)) / real_of_int steps)) 1 = 1"
    using assms(2,3) by (rule it_per_step_low)
  have "t_final / dt < real_of_int steps"
  proof (cases "0 \<le> t_final / dt")
    case True
    then have "py_int (t_final / dt) = \<lfloor>t_final / dt\<rfloor>" by (rule py_int_nonneg)
    with assms(3) have "\<lfloor>t_final / dt\<rfloor> + 1 \<le> steps" by simp
    then have "real_of_int (\<lfloor>t_final / dt\<rfloor> + 1) \<le> real_of_int steps" by (simp only: of_int_le_iff)
    moreover have "t_final / dt < real_of_int (\<lfloor>t_final / dt\<rfloor> + 1)" by linarith
    ultimately show ?thesis by linarith
  next
    case False
    with assms(2) show ?thesis by simp
  qed
  then have "t_final < dt * real_of_int steps" using assms(1) by (simp add: field_simps)
  then have "t_final / real_of_int steps < dt" using assms(2) by (simp add: field_simps)
  with one show ?thesis by (simp add: plan_iterations_def Let_def)
qed

subsection \<open>Splitting the bunch over the processes\<close>

lemma slices_concat:
  "concat (map (\<lambda>p. py_slice row (p * k) ((p + 1) * k)) [0..<n]) = take (n * k) row"
proof (induction n)
  case 0
  then show ?case by simp
next
  case (Suc n)
  have "Suc n * k = n * k + k" by simp
  then have "take (Suc n * k) row = take (n * k) row @ take k (drop (n * k) row)"
    by (simp only: take_add)
  with Suc show ?case by (simp add: py_slice_def)
qed

lemma ppp_covers: "1 \<le> n \<Longrightarrow> N \<le> n * part_per_proc_of N n"
proof -
  assume n: "1 \<le> n"
  define c where "c = \<lceil>real N / real n\<rceil>"
  have up: "real N / real n \<le> real_of_int c" unfolding c_def by linarith
  have "0 \<le> real N / real n" by simp
  then have c0: "0 \<le> c" unfolding c_def by linarith
  have "real N \<le> real n * real_of_int c"
    using up n by (simp add: field_simps)
  also have "real_of_int c = real (nat c)" using c0 by simp
  finally have "real N \<le> real (n * nat c)" by simp
  then have "N \<le> n * nat c" by (simp only: of_nat_le_iff)
  then show ?thesis by (simp add: part_per_proc_of_def c_def)
qed

text \<open>
  C10: for every matrix whose rows have length \<open>N\<close> (the six rows of a 6xN phase-space
  matrix among them) and every number of processes \<open>num_proc \<ge> 1\<close>, the blocks of
  \<open>ceil(N/num_proc)\<close> columns, concatenated in order, are the matrix.
\<close>

theorem split_concatenate_identity:
  assumes "1 \<le> num_proc" and "\<forall>row \<in> set mat. length row = N"
  shows "np_concatenate_axis1 (split_matrix mat num_proc (part_per_proc_of N num_proc)) = Inr mat"
proof -
  let ?k = "part_per_proc_of N num_proc"
  let ?blk = "\<lambda>p. map (\<lambda>row. py_slice row (p * ?k) ((p + 1) * ?k)) mat"
  have cover: "N \<le> num_proc * ?k" using assms(1) by (rule ppp_covers)
  have ne: "[0..<num_proc] = 0 # [1..<num_proc]" using assms(1) by (simp add: upt_conv_Cons)
  have rows: "map (\<lambda>r. concat (map (\<lambda>b. b ! r) (map ?blk [0..<num_proc]))) [0..<length mat] = mat"
  proof (rule nth_equalityI)
    show "length (map (\<lambda>r. concat (map (\<lambda>b. b ! r) (map ?blk [0..<num_proc]))) [0..<length mat]) = length mat"
      by simp
  next
    fix i assume "i < length (map (\<lambda>r. concat (map (\<lambda>b. b ! r) (map ?blk [0..<num_proc]))) [0..<length mat])"
    then have i: "i < length mat" by simp
    then have len: "length (mat ! i) = N" using assms(2) by simp
    have "concat (map (\<lambda>b. b ! i) (map ?blk [0..<num_proc]))
          = concat (map (\<lambda>p. py_slice (mat ! i) (p * ?k) ((p + 1) * ?k)) [0..<num_proc])"
      using i by (simp add: comp_def)
    also have "\<dots> = take (num_proc * ?k) (mat ! i)" by (rule slices_concat)
    also have "\<dots> = mat ! i" using cover len by simp
    finally show "map (\<lambda>r. concat (map (\<lambda>b. b ! r) (map ?blk [0..<num_proc]))) [0..<length mat] ! i = mat ! i"
      using i by simp
  qed
  show ?thesis
    unfolding np_concatenate_axis1_def split_matrix_def
    using rows by (simp add: ne list_all_iff del: upt_Suc)
qed

theorem split_concatenate_identity_witness:
  "np_concatenate_axis1
     (split_matrix [[1, 2, 3], [4, 5, 6], [7, 8, 9], [10, 11, 12], [13, 14, 15], [16, 17, 18]] 2
        (part_per_proc_of 3 2))
   = Inr [[1, 2, 3], [4, 5, 6], [7, 8, 9], [10, 11, 12], [13, 14, 15], [16, 17, 18]]"
  using split_concatenate_identity
          [of 2 "[[1, 2, 3], [4, 5, 6], [7, 8, 9], [10, 11, 12], [13, 14, 15], [16, 17, 18]]" 3]
  by simp

subsection \<open>The propagation distance\<close>

lemma rk_parallel_prop_distance:
  "rk_parallel e au WF len beam mat steps n_proc dt tr = (Inr beam_list, beam', tr')
   \<Longrightarrow> prop_distance beam' = prop_distance beam + len"
  by (auto simp add: rk_parallel_def Let_def increase_prop_distance_def set_phase_space_def
        split: if_splits sum.splits prod.splits)

lemma stage_numerical_prop_distance:
  "PlasmaStage_track_beam_numerically_RK_parallel e stage laser beam mode steps opts
     = (Inr beam_list, beam', tr')
   \<Longrightarrow> prop_distance beam' = prop_distance beam + s_length stage"
  by (auto simp add: PlasmaStage_track_beam_numerically_RK_parallel_def Let_def
        split: if_splits sum.splits option.splits dest: rk_parallel_prop_distance)

lemma ramp_numerical_prop_distance:
  "PlasmaRamp_track_beam_numerically_RK_parallel e ramp beam steps non_rel n_proc
     = (Inr beam_list, beam', tr')
   \<Longrightarrow> prop_distance beam' = prop_distance beam + r_length ramp"
  by (auto simp add: PlasmaRamp_track_beam_numerically_RK_parallel_def Let_def
        split: if_splits sum.splits option.splits dest: rk_parallel_prop_distance)

lemma analytic_prop_distance:
  "PlasmaStage_track_beam_analytically e stage laser beam mode steps lf lfs fs
     = (Inr beam_list, beam', laser', tr')
   \<Longrightarrow> prop_distance beam' = prop_distance beam + s_length stage"
  by (auto simp add: PlasmaStage_track_beam_analytically_def Let_def increase_prop_distance_def
        set_phase_space_def split: if_splits sum.splits option.splits)

text \<open>
  C4: for every tracking call (numerical or analytic, on a stage or a ramp) that completes
  normally, the bunch's \<open>prop_distance\<close> after the call is its value before plus the length
  of the element, whatever \<open>steps\<close> and \<open>n_proc\<close> are.
\<close>

theorem tracking_prop_distance:
  "run_tracking e call beam = (Inr beam_list, beam')
   \<Longrightarrow> prop_distance beam' = prop_distance beam + element_length call"
proof (cases call)
  case (StageNumerical stage laser mode steps opts)
  assume "run_tracking e call beam = (Inr beam_list, beam')"
  with StageNumerical show ?thesis
    by (auto split: prod.splits dest: stage_numerical_prop_distance)
next
  case (StageAnalytical stage laser mode steps lf lfs fs)
  assume "run_tracking e call beam = (Inr beam_list, beam')"
  with StageAnalytical show ?thesis
    by (auto split: prod.splits dest: analytic_prop_distance)
next
  case (RampNumerical ramp steps non_rel n_proc)
  assume "run_tracking e call beam = (Inr beam_list, beam')"
  with RampNumerical show ?thesis
    by (auto split: prod.splits dest: ramp_numerical_prop_distance)
qed

lemma analytic_returns:
  "1 \<le> steps \<Longrightarrow>
   \<exists>beam_list beam'. run_tracking e (StageAnalytical stage laser ''Blowout'' steps lf lfs fs) beam
      = (Inr beam_list, beam')"
proof -
  assume "1 \<le> steps"
  then have "[0..<nat steps] \<noteq> []" by simp
  then show ?thesis
    by (auto simp add: PlasmaStage_track_beam_analytically_def analytic_fields_def Let_def
        split: prod.splits)
qed

theorem tracking_prop_distance_witness:
  "\<exists>beam_list beam'.
     run_tracking example_env
       (StageAnalytical example_stage example_laser ''Blowout'' 1 None None None) example_beam
       = (Inr beam_list, beam')
     \<and> prop_distance beam' = 1"
proof -
  obtain beam_list beam' where r:
    "run_tracking example_env
       (StageAnalytical example_stage example_laser ''Blowout'' 1 None None None) example_beam
       = (Inr beam_list, beam')"
    using analytic_returns [of 1] by blast
  from tracking_prop_distance [OF r] have "prop_distance beam' = 1"
    by (simp add: example_beam_def ParticleBunch_def example_stage_def)
  with r show ?thesis by blast
qed

subsection \<open>Bunch generation\<close>

text \<open>
  C8, on the code: \<open>get_matched_bunch\<close> with \<open>k_x\<close> given and \<open>n_p\<close> left at \<open>None\<close> raises
  \<open>TypeError\<close>, whatever the matched-beta function of the library is: \<open>n_p*1e-6\<close> is
  evaluated first.
\<close>

theorem get_matched_bunch_k_x_only_TypeError:
  "get_matched_bunch ge g en_x en_y ene ene_sp s_t xi_c q_tot n_part x_off y_off theta_x theta_y
     None (Some k_x) = Inl TypeError"
  by (simp add: get_matched_bunch_def rbind_def py_num_def)

lemma truncnorm_window:
  assumes "\<forall>i. a \<le> z i \<and> z i \<le> b" and "truncnorm_rvs z a b loc scale n = Inr xs"
  shows "\<forall>x \<in> set xs. loc + a * scale \<le> x \<and> x \<le> loc + b * scale"
proof -
  from assms(2) have sc: "0 \<le> scale" and xs: "xs = map (\<lambda>i. loc + scale * z i) [0..<nat n]"
    by (auto simp add: truncnorm_rvs_def split: if_splits)
  show ?thesis
  proof
    fix x assume "x \<in> set xs"
    then obtain i where x: "x = loc + scale * z i" using xs by auto
    from assms(1) have "a \<le> z i" "z i \<le> b" by auto
    then have "scale * a \<le> scale * z i" "scale * z i \<le> scale * b"
      using sc by (auto intro: mult_left_mono)
    then show "loc + a * scale \<le> x \<and> x \<le> loc + b * scale"
      using x by (simp add: mult.commute)
  qed
qed

lemma twiss_xi:
  assumes "get_gaussian_bunch_from_twiss g en_x en_y a_x a_y b_x b_y ene ene_sp s_t xi_c q_tot n_part
       x_off y_off theta_x theta_y = Inr b"
  shows "truncnorm_rvs (draw_xi g) (- 3) 3 xi_c (s_t * (1 / 10 ^ 15) * ct_c) n_part = Inr (pb_xi b)"
  using assms
  by (auto simp add: get_gaussian_bunch_from_twiss_def rbind_def Let_def ParticleBunch_def
       split: sum.splits)

lemma twiss_window:
  assumes "\<forall>i. - 3 \<le> draw_xi g i \<and> draw_xi g i \<le> 3"
    and "get_gaussian_bunch_from_twiss g en_x en_y a_x a_y b_x b_y ene ene_sp s_t xi_c q_tot n_part
       x_off y_off theta_x theta_y = Inr b"
  shows "\<forall>xi \<in> set (pb_xi b). xi_c - 3 * (s_t * (1 / 10 ^ 15) * ct_c) \<le> xi
            \<and> xi \<le> xi_c + 3 * (s_t * (1 / 10 ^ 15) * ct_c)"
  using truncnorm_window [OF assms(1) twiss_xi [OF assms(2)]] by simp

lemma twiss_xi_window:
  assumes "\<forall>i. - 3 \<le> draw_xi g i \<and> draw_xi g i \<le> 3"
    and "get_gaussian_bunch_from_twiss g en_x en_y a_x a_y b_x b_y ene ene_sp s_t xi_c q_tot n_part
       x_off y_off theta_x theta_y = Inr b"
  shows "xi_window xi_c s_t b"
  using twiss_window [OF assms] by (simp add: xi_window_def list_all_iff)

text \<open>
  C6: with the standard variates of \<open>truncnorm.rvs\<close> between \<open>-3\<close> and \<open>3\<close>, as scipy draws
  them, every bunch that \<open>get_gaussian_bunch_from_twiss\<close>, \<open>get_gaussian_bunch_from_size\<close> or
  \<open>get_matched_bunch\<close> returns has every \<open>xi\<close> between \<open>xi_c - 3*sigma_z\<close> and
  \<open>xi_c + 3*sigma_z\<close>, where \<open>sigma_z = s_t*1e-15*c\<close>, for every number of particles.
\<close>

theorem generated_xi_within_three_sigma:
  assumes "\<forall>i. - 3 \<le> draw_xi g i \<and> draw_xi g i \<le> 3"
  shows "(get_gaussian_bunch_from_twiss g en_x en_y a_x a_y b_x b_y ene ene_sp s_t xi_c q_tot
            n_part x_off y_off theta_x theta_y = Inr b1 \<longrightarrow> xi_window xi_c s_t b1)
       \<and> (get_gaussian_bunch_from_size g en_x en_y s_x s_y ene ene_sp s_t xi_c q_tot
            n_part x_off y_off theta_x theta_y = Inr b2 \<longrightarrow> xi_window xi_c s_t b2)
       \<and> (get_matched_bunch ge g en_x en_y ene ene_sp s_t xi_c q_tot
            n_part x_off y_off theta_x theta_y n_p k_x = Inr b3 \<longrightarrow> xi_window xi_c s_t b3)"
proof (intro conjI impI)
  assume "get_gaussian_bunch_from_twiss g en_x en_y a_x a_y b_x b_y ene ene_sp s_t xi_c q_tot
            n_part x_off y_off theta_x theta_y = Inr b1"
  with assms show "xi_window xi_c s_t b1" by (rule twiss_xi_window)
next
  assume "get_gaussian_bunch_from_size g en_x en_y s_x s_y ene ene_sp s_t xi_c q_tot
            n_part x_off y_off theta_x theta_y = Inr b2"
  then obtain b_x b_y where
    "get_gaussian_bunch_from_twiss g en_x en_y 0 0 b_x b_y ene ene_sp s_t xi_c q_tot
            n_part x_off y_off theta_x theta_y = Inr b2"
    by (auto simp add: get_gaussian_bunch_from_size_def rbind_def split: sum.splits)
  with assms show "xi_window xi_c s_t b2" by (rule twiss_xi_window)
next
  assume "get_matched_bunch ge g en_x en_y ene ene_sp s_t xi_c q_tot
            n_part x_off y_off theta_x theta_y n_p k_x = Inr b3"
  then obtain b_m where
    "get_gaussian_bunch_from_twiss g en_x en_y 0 0 b_m b_m ene ene_sp s_t xi_c q_tot
            n_part x_off y_off theta_x theta_y = Inr b3"
    by (auto simp add: get_matched_bunch_def rbind_def split: sum.splits)
  with assms show "xi_window xi_c s_t b3" by (rule twiss_xi_window)
qed

lemma example_draws: "\<forall>i. - 3 \<le> draw_xi example_rng i \<and> draw_xi example_rng i \<le> 3"
  by (simp add: example_rng_def bound_draw_def)

lemma twiss_example:
  "\<exists>b. get_gaussian_bunch_from_twiss example_rng 1 1 0 0 1 1 1 1 1 0 1 2 0 0 0 0 = Inr b
        \<and> length (pb_xi b) = 2"
  by (simp add: get_gaussian_bunch_from_twiss_def rbind_def py_div_def standard_normal_def
        truncnorm_rvs_def random_normal_def Let_def ParticleBunch_def ct_c_def)

lemma size_example:
  "\<exists>b. get_gaussian_bunch_from_size example_rng 1 1 1 1 1 1 1 0 1 2 0 0 0 0 = Inr b
        \<and> length (pb_xi b) = 2"
  by (simp add: get_gaussian_bunch_from_size_def get_gaussian_bunch_from_twiss_def rbind_def py_div_def standard_normal_def
        truncnorm_rvs_def random_normal_def Let_def ParticleBunch_def ct_c_def)

lemma matched_example:
  "\<exists>b. get_matched_bunch unit_beta example_rng 1 1 1 1 1 0 1 2 0 0 0 0 (Some 1) None = Inr b
        \<and> length (pb_xi b) = 2"
  by (simp add: get_matched_bunch_def unit_beta_def py_num_def get_gaussian_bunch_from_twiss_def rbind_def py_div_def standard_normal_def
        truncnorm_rvs_def random_normal_def Let_def ParticleBunch_def ct_c_def)

theorem generated_xi_within_three_sigma_witness:
  "(\<exists>b. get_gaussian_bunch_from_twiss example_rng 1 1 0 0 1 1 1 1 1 0 1 2 0 0 0 0 = Inr b
        \<and> length (pb_xi b) = 2 \<and> xi_window 0 1 b)
   \<and> (\<exists>b. get_gaussian_bunch_from_size example_rng 1 1 1 1 1 1 1 0 1 2 0 0 0 0 = Inr b
        \<and> length (pb_xi b) = 2 \<and> xi_window 0 1 b)
   \<and> (\<exists>b. get_matched_bunch unit_beta example_rng 1 1 1 1 1 0 1 2 0 0 0 0 (Some 1) None = Inr b
        \<and> length (pb_xi b) = 2 \<and> xi_window 0 1 b)"
proof -
  note w = generated_xi_within_three_sigma [OF example_draws]
  obtain b1 where b1:
    "get_gaussian_bunch_from_twiss example_rng 1 1 0 0 1 1 1 1 1 0 1 2 0 0 0 0 = Inr b1"
    "length (pb_xi b1) = 2"
    using twiss_example by blast
  obtain b2 where b2:
    "get_gaussian_bunch_from_size example_rng 1 1 1 1 1 1 1 0 1 2 0 0 0 0 = Inr b2"
    "length (pb_xi b2) = 2"
    using size_example by blast
  obtain b3 where b3:
    "get_matched_bunch unit_beta example_rng 1 1 1 1 1 0 1 2 0 0 0 0 (Some 1) None = Inr b3"
    "length (pb_xi b3) = 2"
    using matched_example by blast
  have "xi_window 0 1 b1" by (rule w [THEN conjunct1, rule_format, OF b1(1)])
  moreover have "xi_window 0 1 b2"
    by (rule w [THEN conjunct2, THEN conjunct1, rule_format, OF b2(1)])
  moreover have "xi_window 0 1 b3"
    by (rule w [THEN conjunct2, THEN conjunct2, rule_format, OF b3(1)])
  ultimately show ?thesis using b1 b2 b3 by blast
qed

subsection \<open>The cold-fluid field and the beam\<close>

lemma ode_ignores_beam:
  "wakefield_ode_system u_1 u_2 r z a0 nb1 = wakefield_ode_system u_1 u_2 r z a0 nb2"
  by (simp add: wakefield_ode_system_def)

lemma step_ignores_beam:
  "cold_fluid_step driver r s_d dz dzf bh1 i st = cold_fluid_step driver r s_d dz dzf bh2 i st"
  by (simp add: cold_fluid_step_def wakefield_ode_system_def split: prod.splits)

lemma solve_ignores_beam:
  "solve_fields nm w t n_p r s_d dz dr bh1 = solve_fields nm w t n_p r s_d dz dr bh2"
proof -
  have "cold_fluid_step (cf_driver w) r s_d dz (if cf_driver_evolution w then cf_driver_z_foc w - ct_c * t else 0) bh1
      = cold_fluid_step (cf_driver w) r s_d dz (if cf_driver_evolution w then cf_driver_z_foc w - ct_c * t else 0) bh2"
    by (intro ext) (rule step_ignores_beam)
  then show ?thesis by (simp add: solve_fields_def)
qed

lemma calculate_wakefields_determined:
  assumes "calculate_wakefields nm w x y xi q t = Inr w'"
  shows "w' =
     (let n_p = cf_density_function w (t * ct_c + np_mean xi);
          s_d = plasma_skin_depth nm (n_p * (1 / 10 ^ 6))
      in if cf_current_t w = t then w
         else if Some n_p = cf_current_n_p w \<and> \<not> cf_driver_evolution w
           then w\<lparr>cf_current_t := t\<rparr>
         else projr (solve_fields nm (w\<lparr>cf_current_t := t, cf_current_n_p := Some n_p\<rparr>) t n_p
                       (np_linspace 0 (cf_r_max w) (cf_n_r w)) s_d
                       ((cf_xi_max w - cf_xi_min w) / real (cf_n_xi w) / s_d)
                       (cf_r_max w / real (cf_n_r w) / s_d) []))"
proof (cases "cf_current_t w = t")
  case True
  with assms show ?thesis by (simp add: calculate_wakefields_def Let_def)
next
  case nt: False
  define n_p where "n_p = cf_density_function w (t * ct_c + np_mean xi)"
  show ?thesis
  proof (cases "Some n_p = cf_current_n_p w \<and> \<not> cf_driver_evolution w")
    case True
    with assms nt show ?thesis
      by (simp add: calculate_wakefields_def Let_def n_p_def)
  next
    case False
    define s_d where "s_d = plasma_skin_depth nm (n_p * (1 / 10 ^ 6))"
    define r where "r = np_linspace 0 (cf_r_max w) (cf_n_r w)"
    define dz where "dz = (cf_xi_max w - cf_xi_min w) / real (cf_n_xi w) / s_d"
    define dr where "dr = cf_r_max w / real (cf_n_r w) / s_d"
    define w0 where "w0 = w\<lparr>cf_current_t := t, cf_current_n_p := Some n_p\<rparr>"
    from assms nt False obtain bh where "solve_fields nm w0 t n_p r s_d dz dr bh = Inr w'"
      by (auto simp add: calculate_wakefields_def Let_def rbind_def n_p_def s_d_def r_def dz_def
            dr_def w0_def split: if_splits sum.splits)
    then have "solve_fields nm w0 t n_p r s_d dz dr [] = Inr w'"
      by (simp add: solve_ignores_beam [of nm w0 t n_p r s_d dz dr "[]" bh])
    then have "w' = projr (solve_fields nm w0 t n_p r s_d dz dr [])" by simp
    with nt False show ?thesis
      unfolding Let_def n_p_def s_d_def r_def dz_def dr_def w0_def by auto
  qed
qed

text \<open>
  C9: two evaluations of \<open>__calculate_wakefields\<close> on the same object at the same time \<open>t\<close>
  and the same \<open>xi\<close>, with different charges \<open>q\<close> and transverse positions \<open>x\<close>, \<open>y\<close>, that both
  return leave the same object, hence the same grids for \<open>E_z\<close>, \<open>W_r\<close> and \<open>K_r\<close>; and the
  right-hand side of the ODE is the same for any two beam densities.
\<close>

theorem cold_fluid_fields_independent_of_beam:
  assumes "calculate_wakefields nm w x1 y1 xi q1 t = Inr w1"
    and "calculate_wakefields nm w x2 y2 xi q2 t = Inr w2"
  shows "w1 = w2
     \<and> wakefield_ode_system u_1 u_2 r z a0 nb1 = wakefield_ode_system u_1 u_2 r z a0 nb2"
proof
  show "wakefield_ode_system u_1 u_2 r z a0 nb1 = wakefield_ode_system u_1 u_2 r z a0 nb2"
    by (rule ode_ignores_beam)
next
  show "w1 = w2"
    using calculate_wakefields_determined [OF assms(1)]
          calculate_wakefields_determined [OF assms(2)]
    by (simp only:)
qed

lemma example_returns:
  "\<exists>w1. calculate_wakefields example_numerics example_cold_fluid x y [1 / 2] q 0 = Inr w1
         \<and> cf_E_z w1 \<noteq> None"
  by (simp add: calculate_wakefields_def example_numerics_def example_cold_fluid_def
        NonLinearColdFluidWakefield_init_def unit_scale_def total_histogram_def rbind_def
        solve_fields_def Let_def split: prod.splits)

theorem cold_fluid_fields_independent_of_beam_witness:
  "\<exists>w1 w2.
     calculate_wakefields example_numerics example_cold_fluid [0] [0] [1 / 2] [1] 0 = Inr w1
     \<and> calculate_wakefields example_numerics example_cold_fluid [1] [1] [1 / 2] [2] 0 = Inr w2
     \<and> cf_E_z w1 \<noteq> None \<and> w1 = w2"
proof -
  obtain w1 where w1:
    "calculate_wakefields example_numerics example_cold_fluid [0] [0] [1 / 2] [1] 0 = Inr w1"
    "cf_E_z w1 \<noteq> None"
    using example_returns by blast
  obtain w2 where w2:
    "calculate_wakefields example_numerics example_cold_fluid [1] [1] [1 / 2] [2] 0 = Inr w2"
    using example_returns by blast
  from cold_fluid_fields_independent_of_beam [OF w1(1) w2] have "w1 = w2" by simp
  with w1 w2 show ?thesis by blast
qed

end
